theory Spec2Isabelle
  imports Complex_Main "HOL-Library.Log_Nat"
begin

section \<open>Conventions of the embedding\<close>

text \<open>
  The Python sources under \<^verbatim>\<open>api/app\<close> are embedded function by function.
  \<^item> Python \<^verbatim>\<open>float\<close> values are modelled as real numbers. The scores of
    \<^verbatim>\<open>ranking.py\<close> and the vectors of \<^verbatim>\<open>embeddings.py\<close> are computed with exact
    arithmetic. The progress value of a run is an integer read off a float, so there
    the three float operations are modelled with the rounding of binary64.
  \<^item> Python \<^verbatim>\<open>str\<close> values are modelled as \<^typ>\<open>string\<close>, each character being a
    code point below 256.
  \<^item> A raised exception is the left injection of a sum; \<^verbatim>\<open>str(e)\<close> is \<open>message\<close>.
\<close>

datatype py_error =
    ValueError string
  | TypeError string
  | ZeroDivisionError string
  | HTTPStatusError string
  | HTTPException nat string
  | AttributeError string
  | OperationalError string

fun message :: "py_error \<Rightarrow> string" where
  "message (ValueError m) = m"
| "message (TypeError m) = m"
| "message (ZeroDivisionError m) = m"
| "message (HTTPStatusError m) = m"
| "message (HTTPException code m) = m"
| "message (AttributeError m) = m"
| "message (OperationalError m) = m"

section \<open>Strings\<close>

text \<open>\<^verbatim>\<open>str.lower\<close> on code points below 256: the ASCII capitals and the Latin-1
  capitals \<open>0xC0..0xDE\<close> (without the multiplication sign \<open>0xD7\<close>) move up by 32.\<close>

definition lower_char :: "char \<Rightarrow> char" where
  "lower_char c =
     (let n = (of_char c :: nat)
      in if (65 \<le> n \<and> n \<le> 90) \<or> (192 \<le> n \<and> n \<le> 222 \<and> n \<noteq> 215)
         then char_of (n + 32) else c)"

definition lower_str :: "string \<Rightarrow> string" where
  "lower_str s = map lower_char s"

section \<open>utils.py\<close>

text \<open>\<^verbatim>\<open>normalized_score(value, lo, hi)\<close>\<close>

definition normalized_score :: "real \<Rightarrow> real \<Rightarrow> real \<Rightarrow> real" where
  "normalized_score v lo hi =
     (if hi \<le> lo then 0
      else (max lo (min hi v) - lo) / (hi - lo))"

section \<open>ranking.py\<close>

text \<open>\<^verbatim>\<open>topical_fit\<close>: both arguments are turned into sets of lowercased strings;
  the divisor is the size of the keyword \<^emph>\<open>set\<close>.\<close>

definition topical_fit :: "string list \<Rightarrow> string list \<Rightarrow> real" where
  "topical_fit keywords_query topics_candidate =
     (if keywords_query = [] \<or> topics_candidate = [] then 0
      else
        let s_q = set (map lower_str keywords_query);
            s_c = set (map lower_str topics_candidate);
            inter = card (s_q \<inter> s_c)
        in real inter / real (max 1 (card s_q)))"

text \<open>The formula as the specification words it: the divisor is the length of the
  keyword list that was passed.\<close>

definition topical_fit_spec :: "string list \<Rightarrow> string list \<Rightarrow> real" where
  "topical_fit_spec query_keywords candidate_topics =
     real (card (set (map lower_str query_keywords) \<inter> set (map lower_str candidate_topics)))
       / real (max 1 (length query_keywords))"

text \<open>The breakdown dictionary built by \<^verbatim>\<open>score_candidate\<close>. The two keys that
  \<^verbatim>\<open>run_search\<close> adds afterwards are optional fields; a missing key and a
  \<^verbatim>\<open>None\<close> value are both \<open>None\<close>.\<close>

record breakdown =
  fit_keywords :: real
  fit_embed :: real
  bd_topical_fit :: real
  impact :: real
  recency :: real
  bd_seniority_fit :: real
  weights :: "(string \<times> real) list"
  seniority :: "string option"
  requested_level :: "string option"

definition score_candidate ::
  "string list \<Rightarrow> string list \<Rightarrow> real \<Rightarrow> int \<Rightarrow> int option \<Rightarrow> int \<Rightarrow> real \<Rightarrow> real
     \<Rightarrow> real \<times> breakdown" where
  "score_candidate query_keywords topics h_approx best_citations recent_year current_year
       embed_similarity seniority_fit =
     (let fit_kw = topical_fit query_keywords topics;
          fit_emb = embed_similarity;
          fit = 0.5 * fit_kw + 0.5 * fit_emb;
          imp = normalized_score (real_of_int best_citations) 0 500 * 0.7
                + normalized_score h_approx 0 80 * 0.3;
          rec = (case recent_year of
                   None \<Rightarrow> 0
                 | Some y \<Rightarrow>
                     if y = 0 then 0
                     else normalized_score (real_of_int y)
                            (real_of_int (current_year - 15)) (real_of_int current_year));
          tot = 0.45 * fit + 0.30 * imp + 0.15 * rec + 0.10 * seniority_fit
      in (tot,
          \<lparr> fit_keywords = fit_kw, fit_embed = fit_emb, bd_topical_fit = fit,
            impact = imp, recency = rec, bd_seniority_fit = seniority_fit,
            weights = [(''fit'', 0.45), (''impact'', 0.30), (''recency'', 0.15),
                       (''seniority'', 0.10)],
            seniority = None, requested_level = None \<rparr>))"

definition estimate_seniority :: "int option \<Rightarrow> real \<Rightarrow> int \<Rightarrow> string" where
  "estimate_seniority years_active h_approx works_count =
     (let ya = (case years_active of None \<Rightarrow> 0 | Some y \<Rightarrow> y)
      in if ya \<ge> 10 \<or> h_approx \<ge> 25 \<or> works_count \<ge> 80 then ''principal''
         else if ya \<ge> 6 \<or> h_approx \<ge> 12 \<or> works_count \<ge> 40 then ''senior''
         else if ya \<ge> 3 \<or> h_approx \<ge> 6 \<or> works_count \<ge> 15 then ''mid''
         else ''junior'')"

text \<open>\<^verbatim>\<open>list.index\<close>: the position of the first occurrence, \<^verbatim>\<open>ValueError\<close> when
  there is none.\<close>

fun list_index :: "'a list \<Rightarrow> 'a \<Rightarrow> py_error + nat" where
  "list_index [] x = Inl (ValueError ''x not in list'')"
| "list_index (y # ys) x =
     (if y = x then Inr 0
      else case list_index ys x of Inl e \<Rightarrow> Inl e | Inr i \<Rightarrow> Inr (Suc i))"

definition level_order :: "string list" where
  "level_order = [''junior'', ''mid'', ''senior'', ''principal'']"

definition seniority_fit_score :: "string \<Rightarrow> string option \<Rightarrow> real" where
  "seniority_fit_score candidate_level desired_level =
     (case desired_level of
        None \<Rightarrow> 1
      | Some d \<Rightarrow>
          if d = [] then 1
          else
            (case list_index level_order candidate_level of
               Inl _ \<Rightarrow> 0.8
             | Inr ci \<Rightarrow>
                 (case list_index level_order d of
                    Inl _ \<Rightarrow> 0.8
                  | Inr di \<Rightarrow>
                      let diff = nat \<bar>int ci - int di\<bar>
                      in [1, 0.8, 0.5, 0.2] ! (min diff 3))))"


section \<open>More of utils.py: keyword extraction\<close>

text \<open>\<^verbatim>\<open>str.isspace\<close> on code points below 256, which is what \<^verbatim>\<open>str.split()\<close> and
  \<^verbatim>\<open>str.strip()\<close> use.\<close>

definition is_space :: "char \<Rightarrow> bool" where
  "is_space c =
     (let n = (of_char c :: nat)
      in (9 \<le> n \<and> n \<le> 13) \<or> (28 \<le> n \<and> n \<le> 32) \<or> n = 133 \<or> n = 160)"

text \<open>\<^verbatim>\<open>str.isalpha\<close> on one code point below 256.\<close>

definition is_alpha_char :: "char \<Rightarrow> bool" where
  "is_alpha_char c =
     (let n = (of_char c :: nat)
      in (65 \<le> n \<and> n \<le> 90) \<or> (97 \<le> n \<and> n \<le> 122)
         \<or> n = 170 \<or> n = 181 \<or> n = 186
         \<or> (192 \<le> n \<and> n \<le> 214) \<or> (216 \<le> n \<and> n \<le> 246) \<or> 248 \<le> n)"

definition isalpha :: "string \<Rightarrow> bool" where
  "isalpha s = (s \<noteq> [] \<and> list_all is_alpha_char s)"

definition isascii :: "string \<Rightarrow> bool" where
  "isascii s = list_all (\<lambda>c. (of_char c :: nat) < 128) s"

text \<open>\<^verbatim>\<open>text.split()\<close>: the maximal runs of non-space characters, in order.\<close>

fun split_acc :: "string \<Rightarrow> string \<Rightarrow> string list" where
  "split_acc cur [] = (if cur = [] then [] else [cur])"
| "split_acc cur (c # cs) =
     (if is_space c
      then (if cur = [] then split_acc [] cs else cur # split_acc [] cs)
      else split_acc (cur @ [c]) cs)"

definition py_split :: "string \<Rightarrow> string list" where
  "py_split s = split_acc [] s"

text \<open>\<^verbatim>\<open>s.strip(chars)\<close> and \<^verbatim>\<open>s.strip()\<close>.\<close>

definition strip_chars :: "string \<Rightarrow> string \<Rightarrow> string" where
  "strip_chars chars s =
     rev (dropWhile (\<lambda>c. c \<in> set chars) (rev (dropWhile (\<lambda>c. c \<in> set chars) s)))"

definition py_strip :: "string \<Rightarrow> string" where
  "py_strip s = rev (dropWhile is_space (rev (dropWhile is_space s)))"

definition STOPWORDS :: "string list" where
  "STOPWORDS =
     [''a'', ''an'', ''the'', ''and'', ''or'', ''of'', ''for'', ''to'', ''in'', ''on'',
      ''with'', ''from'', ''that'', ''this'', ''these'', ''those'', ''via'', ''using'', ''use'',
      ''is'', ''are'', ''was'', ''were'', ''be'', ''been'', ''being'', ''as'', ''by'', ''at'',
      ''we'', ''our'', ''their'', ''his'', ''her'', ''its'', ''it'', ''they'', ''them'',
      ''into'', ''over'', ''under'', ''about'', ''within'', ''without'', ''not'', ''no'',
      ''yes'', ''can'', ''could'', ''should'', ''would'', ''may'', ''might'',
      ''method'', ''methods'', ''results'', ''introduction'', ''conclusion'', ''abstract'',
      ''study'', ''paper'', ''dataset'', ''data'',
      ''model'', ''models'', ''approach'', ''approaches'', ''new'', ''propose'', ''proposed'',
      ''show'', ''shows'', ''work'', ''works'',
      ''learning'', ''machine'', ''deep'', ''neural'', ''network'', ''networks'',
      ''transformer'', ''transformers'', ''large'',
      ''language'', ''languages'', ''based'', ''task'', ''tasks'', ''performance'', ''state'',
      ''art'', ''sota'']"

text \<open>The strip set of \<^verbatim>\<open>top_keywords\<close>: \<^verbatim>\<open>.,:;()[]{}"'\n\t\<close> and the blank.\<close>

definition keyword_strip_set :: "string" where
  "keyword_strip_set = ''.,:;()[]{}'' @ [CHR 0x22, CHR 0x27, CHR 0x0A, CHR 0x09] @ '' ''"

text \<open>A \<^verbatim>\<open>Counter\<close> keeps its keys in the order of their first insertion.\<close>

fun counter_incr :: "string \<Rightarrow> (string \<times> nat) list \<Rightarrow> (string \<times> nat) list" where
  "counter_incr tok [] = [(tok, 1)]"
| "counter_incr tok ((w, n) # rest) =
     (if w = tok then (w, n + 1) # rest else (w, n) # counter_incr tok rest)"

definition keep_token :: "string \<Rightarrow> bool" where
  "keep_token tok =
     (\<not> (tok = [] \<or> tok \<in> set STOPWORDS \<or> \<not> isalpha tok \<or> length tok < 3))"

definition count_chunk :: "string \<Rightarrow> (string \<times> nat) list \<Rightarrow> (string \<times> nat) list" where
  "count_chunk text counts =
     (let tokens = map (\<lambda>t. strip_chars keyword_strip_set (lower_str t)) (py_split text)
      in foldl (\<lambda>cs tok. if keep_token tok then counter_incr tok cs else cs) counts tokens)"

text \<open>\<^verbatim>\<open>Counter.most_common(k)\<close>: by count, largest first, equal counts in insertion
  order.\<close>

definition most_common :: "nat \<Rightarrow> (string \<times> nat) list \<Rightarrow> (string \<times> nat) list" where
  "most_common k counts = take k (sort_key (\<lambda>(w, n). - int n) counts)"

definition top_keywords :: "string list \<Rightarrow> nat \<Rightarrow> string list" where
  "top_keywords chunks k =
     map fst (most_common k (foldl (\<lambda>cs text. count_chunk text cs) [] chunks))"

section \<open>embeddings.py\<close>

text \<open>The strip set of the tokenizer: \<^verbatim>\<open>.,:;()[]{}"'\n\t !?-_/\<close>.\<close>

definition token_strip_set :: "string" where
  "token_strip_set =
     ''.,:;()[]{}'' @ [CHR 0x22, CHR 0x27, CHR 0x0A, CHR 0x09] @ '' !?-_/''"

definition tokenize :: "string \<Rightarrow> string list" where
  "tokenize text =
     map (\<lambda>t. lower_str (strip_chars token_strip_set t))
       (filter (\<lambda>t. t \<noteq> [] \<and> isascii t) (py_split text))"

text \<open>The accumulation loop of \<^verbatim>\<open>SimpleEmbedder.embed\<close>. The MD5 digest read as an
  integer is the parameter \<open>md5\<close> (a function of the standard library). The index is
  \<^verbatim>\<open>h % dim\<close>, which raises for a dimension of 0; the sign is read from bit 1 of the hash.
  The loop is only run on a vector of that length, so the index is in range.\<close>

fun accumulate :: "(string \<Rightarrow> nat) \<Rightarrow> nat \<Rightarrow> string list \<Rightarrow> real list \<Rightarrow> py_error + real list"
  where
  "accumulate md5 edim [] vec = Inr vec"
| "accumulate md5 edim (tok # toks) vec =
     (if edim = 0 then Inl (ZeroDivisionError ''integer modulo by zero'')
      else
        let h = md5 tok;
            i = h mod edim;
            sign = (if (h div 2) mod 2 = 1 then - 1 else 1)
        in accumulate md5 edim toks (vec[i := vec ! i + sign]))"

text \<open>The normalisation, and \<^verbatim>\<open>cosine_similarity\<close> below, are written with exact
  arithmetic. The code rounds: to \<^verbatim>\<open>float32\<close> when \<^verbatim>\<open>numpy\<close> is installed, to binary64
  otherwise, and to \<^verbatim>\<open>float32\<close> where a vector is stored. The values of the model are
  therefore those of the code up to that rounding; a run of \<^verbatim>\<open>run_search\<close> uses them
  for the score only, and what is proved of a run does not depend on them.\<close>

definition l2_norm :: "real list \<Rightarrow> real" where
  "l2_norm vec = sqrt (sum_list (map (\<lambda>v. v * v) vec))"

definition embed :: "(string \<Rightarrow> nat) \<Rightarrow> nat \<Rightarrow> string \<Rightarrow> py_error + real list" where
  "embed md5 edim text =
     (case accumulate md5 edim (tokenize text) (replicate edim 0) of
        Inl e \<Rightarrow> Inl e
      | Inr vec \<Rightarrow>
          let norm = l2_norm vec
          in if norm > 0 then Inr (map (\<lambda>v. v / norm) vec) else Inr vec)"

definition dot :: "real list \<Rightarrow> real list \<Rightarrow> real" where
  "dot a b = sum_list (map (\<lambda>(x, y). x * y) (zip a b))"

definition cosine_similarity :: "real list \<Rightarrow> real list \<Rightarrow> py_error + real" where
  "cosine_similarity a b =
     (if length a \<noteq> length b then Inl (ValueError ''shape mismatch'')
      else
        let na = l2_norm a;
            nb = l2_norm b;
            denom = na * nb
        in Inr (if denom \<noteq> 0 then dot a b / denom else 0))"


section \<open>models.py\<close>

text \<open>Primary keys are \<^verbatim>\<open>uuid4\<close> strings in the source. They are modelled as numbers
  drawn from a counter kept with the tables, so that every generated key is new.
  The \<^verbatim>\<open>created_at\<close> and \<^verbatim>\<open>updated_at\<close> time stamps of \<^verbatim>\<open>Job\<close> are left out.
  Columns that hold JSON text hold the encoded value itself.\<close>

type_synonym uuid = nat

datatype job_status = PENDING | RUNNING | DONE | ERROR

record job =
  job_query :: string
  job_description :: "string option"
  filters_json :: "(string \<times> string) list"
  job_status :: job_status
  job_progress :: int
  job_error :: "string option"

record candidate =
  cand_id :: uuid
  cand_name :: string
  cand_affiliation :: "string option"
  openalex_id :: "string option"
  twitter_handle :: "string option"

record publication =
  pub_id :: uuid
  pub_candidate_id :: uuid
  pub_title :: "string option"
  pub_venue :: "string option"
  pub_year :: "int option"
  pub_citations :: int
  pub_abstract :: "string option"
  openalex_work_id :: "string option"

record social_post =
  sp_id :: uuid
  sp_candidate_id :: uuid
  sp_post_id :: string
  sp_text :: string
  sp_created_at :: string

record analysis_summary =
  sum_id :: uuid
  sum_candidate_id :: uuid
  topics_json :: "string list option"
  score_breakdown_json :: "breakdown option"
  total_score :: real

record affiliation_year =
  aff_id :: uuid
  aff_candidate_id :: uuid
  org_name :: string
  aff_year :: int
  evidence_count :: int

record embedding =
  emb_id :: uuid
  emb_candidate_id :: uuid
  emb_kind :: string
  emb_ref_id :: uuid
  emb_dim :: nat
  emb_vector :: "real list"

section \<open>The event queues of orchestrator.py\<close>

record candidate_payload =
  ev_candidate_id :: uuid
  ev_name :: string
  ev_affiliation :: "string option"
  ev_topics :: "string list"
  ev_score :: real
  ev_seniority :: string

datatype event =
    ProgressEvent int
  | CandidateEvent candidate_payload
  | FinishedEvent
  | ErrorEvent string

text \<open>The database tables, each in insertion order, and the queues of \<^verbatim>\<open>JobEvents\<close>
  (a job without a queue has the empty one).\<close>

record state =
  jobs :: "uuid \<rightharpoonup> job"
  candidates :: "candidate list"
  publications :: "publication list"
  affiliation_years :: "affiliation_year list"
  summaries :: "analysis_summary list"
  social_posts :: "social_post list"
  embeddings :: "embedding list"
  next_uuid :: nat
  queues :: "uuid \<Rightarrow> event list"

definition emit :: "uuid \<Rightarrow> event \<Rightarrow> state \<Rightarrow> state" where
  "emit job_id ev st = st\<lparr>queues := (queues st)(job_id := queues st job_id @ [ev])\<rparr>"

text \<open>\<^verbatim>\<open>job = s.get(Job, job_id); if job: ...; s.add(job); s.commit()\<close>\<close>

definition update_job :: "uuid \<Rightarrow> (job \<Rightarrow> job) \<Rightarrow> state \<Rightarrow> state" where
  "update_job job_id f st =
     (case jobs st job_id of
        None \<Rightarrow> st
      | Some j \<Rightarrow> st\<lparr>jobs := (jobs st)(job_id \<mapsto> f j)\<rparr>)"

section \<open>connectors/openalex.py, as collaborators\<close>

record author =
  au_id :: string
  display_name :: string
  au_affiliation :: "string option"
  works_count :: nat
  cited_by_count :: nat

record work =
  w_title :: "string option"
  w_venue :: "string option"
  w_year :: "int option"
  w_citations :: int
  w_abstract :: "string option"
  org_at_publication :: "string option"
  w_work_id :: "string option"

text \<open>What a run reads from outside: the two HTTP calls (either an exception or the
  parsed list), the clock, the MD5 digest and the configured embedding dimension.\<close>

record env =
  search_authors :: "string \<Rightarrow> nat \<Rightarrow> py_error + author list"
  fetch_top_works :: "string \<Rightarrow> nat \<Rightarrow> py_error + work list"
  utcnow_year :: int
  md5_int :: "string \<Rightarrow> nat"
  embed_dim :: nat

section \<open>The rounding of Python floats\<close>

text \<open>A Python \<^verbatim>\<open>float\<close> is an IEEE 754 binary64 number, and an arithmetic operation
  returns the exact result rounded to the nearest such number, a tie going to the even
  significand. \<open>binade x\<close> is the exponent \<open>e\<close> with \<open>2 ^ e \<le> \<bar>x\<bar> < 2 ^ (e + 1)\<close>, computed
  from the bit length of \<open>\<lfloor>\<bar>x\<bar>\<rfloor>\<close> or of \<open>\<lceil>1 / \<bar>x\<bar>\<rceil> - 1\<close>; the binary64 numbers of that
  binade are the multiples of \<open>2 ^ (e - 52)\<close>. The exponent is not bounded in the model:
  overflow and subnormal numbers are not represented (they do not arise for the values
  rounded below, which lie between \<open>1 / total\<close> and 95).\<close>

definition round_half_even :: "real \<Rightarrow> int" where
  "round_half_even y =
     (let f = \<lfloor>y\<rfloor>;
          d = y - of_int f
      in if d < 1 / 2 then f
         else if 1 / 2 < d then f + 1
         else if even f then f else f + 1)"

definition pow2 :: "int \<Rightarrow> real" where
  "pow2 k = (if 0 \<le> k then 2 ^ nat k else 1 / 2 ^ nat (- k))"

definition binade :: "real \<Rightarrow> int" where
  "binade x =
     (if 1 \<le> \<bar>x\<bar> then bitlen \<lfloor>\<bar>x\<bar>\<rfloor> - 1 else - bitlen (\<lceil>1 / \<bar>x\<bar>\<rceil> - 1))"

definition binary64 :: "real \<Rightarrow> real" where
  "binary64 x =
     (if x = 0 then 0
      else let ulp = pow2 (binade x - 52)
           in of_int (round_half_even (x / ulp)) * ulp)"

section \<open>orchestrator.py: run_search\<close>

text \<open>\<^verbatim>\<open>a or b\<close> on strings.\<close>

definition str_or :: "string \<Rightarrow> string \<Rightarrow> string" where
  "str_or a b = (if a = [] then b else a)"

text \<open>\<^verbatim>\<open>int(x)\<close> on a float truncates towards zero.\<close>

definition py_int :: "real \<Rightarrow> int" where
  "py_int x = (if x \<ge> 0 then \<lfloor>x\<rfloor> else \<lceil>x\<rceil>)"

text \<open>\<^verbatim>\<open>progress = int(5 + (step / max(1, total)) * 90)\<close>: the quotient of the two
  integers, its product with 90 and the sum with 5 are three float operations, each
  rounded.\<close>

definition progress_value :: "nat \<Rightarrow> nat \<Rightarrow> int" where
  "progress_value step n_total =
     py_int (binary64 (5 + binary64 (binary64 (real step / real (max 1 n_total)) * 90)))"

text \<open>\<^verbatim>\<open>w.get("title", "") + "\n" + (w.get("abstract") or "")\<close>: the key is always
  present, so a null title is \<^verbatim>\<open>None + str\<close>.\<close>

definition work_text :: "work \<Rightarrow> py_error + string" where
  "work_text w =
     (case w_title w of
        None \<Rightarrow> Inl (TypeError (''unsupported operand type(s) for +: '' @ [CHR 0x27]
                       @ ''NoneType'' @ [CHR 0x27] @ '' and '' @ [CHR 0x27] @ ''str''
                       @ [CHR 0x27]))
      | Some t \<Rightarrow> Inr (t @ [CHR 0x0A] @ (case w_abstract w of None \<Rightarrow> [] | Some a \<Rightarrow> a)))"

fun work_texts :: "work list \<Rightarrow> py_error + string list" where
  "work_texts [] = Inr []"
| "work_texts (w # ws) =
     (case work_text w of
        Inl e \<Rightarrow> Inl e
      | Inr t \<Rightarrow> (case work_texts ws of Inl e \<Rightarrow> Inl e | Inr ts \<Rightarrow> Inr (t # ts)))"

text \<open>\<^verbatim>\<open>"\n\n".join(texts)\<close>\<close>

fun join_nl2 :: "string list \<Rightarrow> string" where
  "join_nl2 [] = []"
| "join_nl2 [t] = t"
| "join_nl2 (t # ts) = t @ [CHR 0x0A, CHR 0x0A] @ join_nl2 ts"

text \<open>What the loop body computes for one author before it writes anything.\<close>

record enrichment =
  enr_works :: "work list"
  enr_topics :: "string list"
  enr_score :: real
  enr_breakdown :: breakdown
  enr_seniority_level :: string

text \<open>The values fixed before the loop: \<^verbatim>\<open>query\<close>, \<^verbatim>\<open>job_keywords\<close>, \<^verbatim>\<open>job_vec\<close>,
  \<^verbatim>\<open>requested_level\<close>, \<^verbatim>\<open>now_year\<close> and \<^verbatim>\<open>total\<close>.\<close>

record loop_ctx =
  ctx_query :: string
  ctx_job_keywords :: "string list"
  ctx_job_vec :: "real list"
  ctx_requested_level :: "string option"
  ctx_now_year :: int
  ctx_total :: nat

definition enrich :: "env \<Rightarrow> loop_ctx \<Rightarrow> author \<Rightarrow> py_error + enrichment" where
  "enrich e ctx a =
     (case fetch_top_works e (au_id a) 10 of
        Inl err \<Rightarrow> Inl err
      | Inr works \<Rightarrow>
     (case work_texts works of
        Inl err \<Rightarrow> Inl err
      | Inr texts \<Rightarrow>
          let now_year = ctx_now_year ctx;
              topics = top_keywords texts 8;
              best_citations = foldr max (map w_citations works) 0;
              m = foldr max (map (\<lambda>w. case w_year w of None \<Rightarrow> 0 | Some y \<Rightarrow> y) works) 0;
              recent_year = (if m = 0 then None else Some m);
              h_approx = min (real (works_count a) powr 0.5) (real (cited_by_count a) powr 0.4);
              cand_text = take 8000 (join_nl2 texts)
          in
     (case embed (md5_int e) (embed_dim e) cand_text of
        Inl err \<Rightarrow> Inl err
      | Inr cand_vec \<Rightarrow>
     (case cosine_similarity cand_vec (ctx_job_vec ctx) of
        Inl err \<Rightarrow> Inl err
      | Inr embed_fit \<Rightarrow>
          let first_year =
                foldr min
                  (map (\<lambda>w. case w_year w of
                               None \<Rightarrow> now_year
                             | Some y \<Rightarrow> if y = 0 then now_year else y) works)
                  now_year;
              years_active = max 1 (now_year - first_year + 1);
              seniority_level =
                estimate_seniority (Some years_active) h_approx (int (works_count a));
              seniority_fit = seniority_fit_score seniority_level (ctx_requested_level ctx);
              query_keywords =
                (if ctx_job_keywords ctx = [] then py_split (ctx_query ctx)
                 else ctx_job_keywords ctx);
              (score, bd) =
                score_candidate query_keywords topics h_approx best_citations recent_year
                  now_year embed_fit seniority_fit
          in Inr \<lparr> enr_works = works, enr_topics = topics, enr_score = score,
                   enr_breakdown = bd\<lparr> seniority := Some seniority_level,
                                        requested_level := ctx_requested_level ctx \<rparr>,
                   enr_seniority_level = seniority_level \<rparr>))))"

text \<open>The session of the \<^verbatim>\<open>with\<close> block that persists a candidate. An object passed to
  \<^verbatim>\<open>s.add\<close> is pending until the session is flushed, which \<^verbatim>\<open>s.commit()\<close> does. The
  statements of the affiliation upsert are raw \<^verbatim>\<open>text()\<close> statements run through
  \<^verbatim>\<open>s.exec\<close>: the session sends them to the database as they are and does not flush
  for them, so they see the rows already written and not the pending ones.\<close>

record session =
  pending_publications :: "publication list"
  pending_affiliations :: "affiliation_year list"
  pending_summaries :: "analysis_summary list"

definition new_session :: session where
  "new_session = \<lparr> pending_publications = [], pending_affiliations = [],
                    pending_summaries = [] \<rparr>"

definition commit :: "state \<times> session \<Rightarrow> state" where
  "commit ss =
     (let (st, s) = ss
      in st\<lparr>publications := publications st @ pending_publications s,
            affiliation_years := affiliation_years st @ pending_affiliations s,
            summaries := summaries st @ pending_summaries s\<rparr>)"

text \<open>The affiliation upsert: \<^verbatim>\<open>SELECT ... WHERE candidate_id, year, org_name LIMIT 1\<close>
  on the table; a hit is followed by
  \<^verbatim>\<open>UPDATE ... SET evidence_count = ev + 1 WHERE id = :id\<close>, a miss by
  \<^verbatim>\<open>s.add(AffiliationYear(..., evidence_count=1))\<close>.\<close>

definition same_triple :: "uuid \<Rightarrow> int \<Rightarrow> string \<Rightarrow> affiliation_year \<Rightarrow> bool" where
  "same_triple cid yr org r = (aff_candidate_id r = cid \<and> aff_year r = yr \<and> org_name r = org)"

definition upsert_affiliation ::
  "uuid \<Rightarrow> int \<Rightarrow> string \<Rightarrow> state \<times> session \<Rightarrow> state \<times> session" where
  "upsert_affiliation cid yr org ss =
     (let (st, s) = ss
      in case find (same_triple cid yr org) (affiliation_years st) of
           Some existing \<Rightarrow>
             (st\<lparr>affiliation_years :=
                   map (\<lambda>r. if aff_id r = aff_id existing
                             then r\<lparr>evidence_count := evidence_count existing + 1\<rparr> else r)
                     (affiliation_years st)\<rparr>,
              s)
         | None \<Rightarrow>
             (st\<lparr>next_uuid := next_uuid st + 1\<rparr>,
              s\<lparr>pending_affiliations :=
                   pending_affiliations s @
                     [\<lparr> aff_id = next_uuid st, aff_candidate_id = cid, org_name = org,
                        aff_year = yr, evidence_count = 1 \<rparr>]\<rparr>))"

text \<open>One pass of \<^verbatim>\<open>for w in works\<close>: \<^verbatim>\<open>s.add(pub)\<close>, then the upsert when the work
  has a non-empty organisation and an integer year.\<close>

definition persist_work :: "uuid \<Rightarrow> state \<times> session \<Rightarrow> work \<Rightarrow> state \<times> session" where
  "persist_work cid ss w =
     (let (st, s) = ss;
          pub = \<lparr> pub_id = next_uuid st, pub_candidate_id = cid, pub_title = w_title w,
                  pub_venue = w_venue w, pub_year = w_year w, pub_citations = w_citations w,
                  pub_abstract = w_abstract w, openalex_work_id = w_work_id w \<rparr>;
          ss1 = (st\<lparr>next_uuid := next_uuid st + 1\<rparr>,
                 s\<lparr>pending_publications := pending_publications s @ [pub]\<rparr>)
      in case (org_at_publication w, w_year w) of
           (Some org, Some yr) \<Rightarrow> if org \<noteq> [] then upsert_affiliation cid yr org ss1 else ss1
         | _ \<Rightarrow> ss1)"

text \<open>The \<^verbatim>\<open>with\<close> block: the candidate is added and committed, the works are gone
  through, the summary is added, and the second \<^verbatim>\<open>s.commit()\<close> writes what is
  pending.\<close>

definition persist_candidate :: "author \<Rightarrow> enrichment \<Rightarrow> state \<Rightarrow> state \<times> candidate" where
  "persist_candidate a enr st =
     (let c = \<lparr> cand_id = next_uuid st, cand_name = display_name a,
                cand_affiliation = au_affiliation a, openalex_id = Some (au_id a),
                twitter_handle = None \<rparr>;
          st1 = st\<lparr>candidates := candidates st @ [c], next_uuid := next_uuid st + 1\<rparr>;
          (st2, s2) = foldl (persist_work (cand_id c)) (st1, new_session) (enr_works enr);
          summary = \<lparr> sum_id = next_uuid st2, sum_candidate_id = cand_id c,
                      topics_json = Some (enr_topics enr),
                      score_breakdown_json = Some (enr_breakdown enr),
                      total_score = enr_score enr \<rparr>
      in (commit (st2\<lparr>next_uuid := next_uuid st2 + 1\<rparr>,
                  s2\<lparr>pending_summaries := pending_summaries s2 @ [summary]\<rparr>), c))"

text \<open>The rest of the loop body once the author's values are computed: the writes, the
  \<^verbatim>\<open>candidate\<close> event, then the progress for the new value of \<^verbatim>\<open>step\<close>, written to
  the job and emitted.\<close>

definition complete_author ::
  "uuid \<Rightarrow> loop_ctx \<Rightarrow> nat \<Rightarrow> author \<Rightarrow> enrichment \<Rightarrow> state \<Rightarrow> state" where
  "complete_author job_id ctx step a enr st =
     (let (st1, c) = persist_candidate a enr st;
          st2 = emit job_id
                  (CandidateEvent
                     \<lparr> ev_candidate_id = cand_id c, ev_name = cand_name c,
                       ev_affiliation = cand_affiliation c, ev_topics = enr_topics enr,
                       ev_score = enr_score enr,
                       ev_seniority = enr_seniority_level enr \<rparr>) st1;
          progress = progress_value step (ctx_total ctx);
          st3 = update_job job_id (\<lambda>j. j\<lparr>job_progress := progress\<rparr>) st2
      in emit job_id (ProgressEvent progress) st3)"

text \<open>The \<^verbatim>\<open>for author in authors\<close> loop; \<open>step\<close> is the counter before the pass. An
  exception leaves the loop with the state as it is at that moment: what was committed
  stays.\<close>

fun enrich_loop ::
  "env \<Rightarrow> uuid \<Rightarrow> loop_ctx \<Rightarrow> nat \<Rightarrow> author list \<Rightarrow> state \<Rightarrow> state \<times> py_error option" where
  "enrich_loop e job_id ctx step [] st = (st, None)"
| "enrich_loop e job_id ctx step (a # rest) st =
     (case enrich e ctx a of
        Inl err \<Rightarrow> (st, Some err)
      | Inr enr \<Rightarrow>
          enrich_loop e job_id ctx (step + 1) rest
            (complete_author job_id ctx (step + 1) a enr st))"

text \<open>The values that \<^verbatim>\<open>run_search\<close> derives from the job row.\<close>

definition job_text_of :: "job \<Rightarrow> string" where
  "job_text_of j = py_strip (case job_description j of None \<Rightarrow> [] | Some d \<Rightarrow> d)"

definition discover_query_of :: "job \<Rightarrow> string" where
  "discover_query_of j = str_or (job_query j) (str_or (job_text_of j) ''ai researcher'')"

definition make_ctx :: "env \<Rightarrow> job \<Rightarrow> real list \<Rightarrow> nat \<Rightarrow> loop_ctx" where
  "make_ctx e j job_vec n =
     \<lparr> ctx_query = job_query j,
       ctx_job_keywords = top_keywords [str_or (job_text_of j) (job_query j)] 12,
       ctx_job_vec = job_vec,
       ctx_requested_level =
         (case map_of (filters_json j) ''seniority'' of
            None \<Rightarrow> None
          | Some v \<Rightarrow> if v = [] then None else Some v),
       ctx_now_year = utcnow_year e,
       ctx_total = n \<rparr>"

text \<open>The body of the \<^verbatim>\<open>try\<close> block.\<close>

definition run_body :: "env \<Rightarrow> uuid \<Rightarrow> state \<Rightarrow> state \<times> py_error option" where
  "run_body e job_id st =
     (case jobs st job_id of
        None \<Rightarrow>
          (st, Some (AttributeError ([CHR 0x27] @ ''NoneType'' @ [CHR 0x27]
                 @ '' object has no attribute '' @ [CHR 0x27] @ ''job_description''
                 @ [CHR 0x27])))
      | Some j \<Rightarrow>
     (case search_authors e (discover_query_of j) 10 of
        Inl err \<Rightarrow> (st, Some err)
      | Inr authors \<Rightarrow>
          if authors = [] then
            (emit job_id FinishedEvent
               (update_job job_id (\<lambda>j. j\<lparr>job_status := DONE, job_progress := 100\<rparr>) st),
             None)
          else
     (case embed (md5_int e) (embed_dim e) (str_or (job_text_of j) (job_query j)) of
        Inl err \<Rightarrow> (st, Some err)
      | Inr job_vec \<Rightarrow>
     (case enrich_loop e job_id (make_ctx e j job_vec (length authors)) 0 authors st of
        (st', Some err) \<Rightarrow> (st', Some err)
      | (st', None) \<Rightarrow>
          (emit job_id FinishedEvent
             (update_job job_id (\<lambda>j. j\<lparr>job_progress := 100, job_status := DONE\<rparr>) st'),
           None)))))"

text \<open>The state in which the \<^verbatim>\<open>try\<close> block starts: the job is \<^verbatim>\<open>RUNNING\<close> at
  progress 1 and that progress has been emitted.\<close>

definition start_job :: "uuid \<Rightarrow> state \<Rightarrow> state" where
  "start_job job_id st =
     emit job_id (ProgressEvent 1)
       (update_job job_id (\<lambda>j. j\<lparr>job_status := RUNNING, job_progress := 1\<rparr>) st)"

definition run_search :: "env \<Rightarrow> uuid \<Rightarrow> state \<Rightarrow> state" where
  "run_search e job_id st =
     (case jobs st job_id of
        None \<Rightarrow> st
      | Some _ \<Rightarrow>
          (case run_body e job_id (start_job job_id st) of
             (st3, None) \<Rightarrow> st3
           | (st3, Some err) \<Rightarrow>
               emit job_id (ErrorEvent (message err))
                 (update_job job_id
                    (\<lambda>j. j\<lparr>job_status := ERROR, job_error := Some (message err)\<rparr>) st3)))"

text \<open>The events that a run added to the queue of its job, and their kinds.\<close>

definition emitted :: "state \<Rightarrow> state \<Rightarrow> uuid \<Rightarrow> event list" where
  "emitted st st' job_id = drop (length (queues st job_id)) (queues st' job_id)"

fun is_candidate_event :: "event \<Rightarrow> bool" where
  "is_candidate_event (CandidateEvent _) = True"
| "is_candidate_event _ = False"

fun is_error_event :: "event \<Rightarrow> bool" where
  "is_error_event (ErrorEvent _) = True"
| "is_error_event _ = False"

fun is_finished_event :: "event \<Rightarrow> bool" where
  "is_finished_event FinishedEvent = True"
| "is_finished_event _ = False"

fun is_progress_event :: "event \<Rightarrow> bool" where
  "is_progress_event (ProgressEvent _) = True"
| "is_progress_event _ = False"

section \<open>main.py: get_search\<close>

record candidate_summary =
  cs_candidate_id :: uuid
  cs_name :: string
  cs_affiliation :: "string option"
  cs_topics :: "string list"
  cs_score :: real
  cs_seniority :: "string option"

record search_status_response =
  resp_status :: job_status
  resp_progress :: int
  resp_results :: "candidate_summary list"

text \<open>No class of \<^verbatim>\<open>models.py\<close> sets \<^verbatim>\<open>__tablename__\<close>, so each table carries the
  lowercased name of its class: the rows of \<^verbatim>\<open>AnalysisSummary\<close> are in the table
  \<^verbatim>\<open>analysissummary\<close>. A statement that names another table for them raises.\<close>

definition analysis_summary_table :: "state \<Rightarrow> string \<Rightarrow> py_error + analysis_summary list"
  where
  "analysis_summary_table st name =
     (if name = ''analysissummary'' then Inr (summaries st)
      else Inl (OperationalError (''no such table: '' @ name)))"

text \<open>The first query:
  \<^verbatim>\<open>FROM analysis_summary JOIN candidate ... ORDER BY total_score DESC LIMIT 20\<close>.\<close>

definition top_rows :: "state \<Rightarrow> py_error + (candidate \<times> analysis_summary) list" where
  "top_rows st =
     (case analysis_summary_table st ''analysis_summary'' of
        Inl err \<Rightarrow> Inl err
      | Inr rows \<Rightarrow>
          Inr (take 20
                 (sort_key (\<lambda>(c, s). - total_score s)
                    (concat (map (\<lambda>s. map (\<lambda>c. (c, s))
                                          (filter (\<lambda>c. cand_id c = sum_candidate_id s)
                                             (candidates st)))
                               rows)))))"

text \<open>The second query, per candidate:
  \<^verbatim>\<open>SELECT score_breakdown_json FROM analysis_summary WHERE candidate_id = :cid
  ORDER BY total_score DESC LIMIT 1\<close>, and the \<^verbatim>\<open>seniority\<close> key of that breakdown.\<close>

definition seniority_of :: "state \<Rightarrow> uuid \<Rightarrow> py_error + string option" where
  "seniority_of st cid =
     (case analysis_summary_table st ''analysis_summary'' of
        Inl err \<Rightarrow> Inl err
      | Inr rows \<Rightarrow>
          Inr (case sort_key (\<lambda>s. - total_score s)
                      (filter (\<lambda>s. sum_candidate_id s = cid) rows) of
                 [] \<Rightarrow> None
               | s # _ \<Rightarrow>
                   (case score_breakdown_json s of None \<Rightarrow> None | Some bd \<Rightarrow> seniority bd)))"

text \<open>The loop over the rows of the first query.\<close>

fun collect_results ::
  "state \<Rightarrow> (candidate \<times> analysis_summary) list \<Rightarrow> py_error + candidate_summary list" where
  "collect_results st [] = Inr []"
| "collect_results st ((c, s) # rest) =
     (case seniority_of st (cand_id c) of
        Inl err \<Rightarrow> Inl err
      | Inr lvl \<Rightarrow>
          (case collect_results st rest of
             Inl err \<Rightarrow> Inl err
           | Inr results \<Rightarrow>
               Inr (\<lparr> cs_candidate_id = cand_id c, cs_name = cand_name c,
                      cs_affiliation = cand_affiliation c,
                      cs_topics = (case topics_json s of None \<Rightarrow> [] | Some ts \<Rightarrow> ts),
                      cs_score = total_score s,
                      cs_seniority = lvl \<rparr> # results)))"

text \<open>\<^verbatim>\<open>get_search\<close>: 404 for an unknown job; the two queries are run only for a job
  that is \<^verbatim>\<open>RUNNING\<close> or \<^verbatim>\<open>DONE\<close>, and their exception is not caught.\<close>

definition get_search :: "state \<Rightarrow> uuid \<Rightarrow> py_error + search_status_response" where
  "get_search st search_id =
     (case jobs st search_id of
        None \<Rightarrow> Inl (HTTPException 404 ''search not found'')
      | Some j \<Rightarrow>
          if job_status j \<in> {RUNNING, DONE}
          then (case top_rows st of
                  Inl err \<Rightarrow> Inl err
                | Inr rows \<Rightarrow>
                    (case collect_results st rows of
                       Inl err \<Rightarrow> Inl err
                     | Inr results \<Rightarrow>
                         Inr \<lparr> resp_status = job_status j, resp_progress = job_progress j,
                                resp_results = results \<rparr>))
          else Inr \<lparr> resp_status = job_status j, resp_progress = job_progress j,
                     resp_results = [] \<rparr>)"

section \<open>rag.py\<close>







section \<open>Notions used to state the properties of the affiliation table\<close>

text \<open>The observations of a list of works: the (year, organisation) pairs for which the
  loop runs the upsert; and what a row records.\<close>

definition observation :: "work \<Rightarrow> (int \<times> string) option" where
  "observation w =
     (case (org_at_publication w, w_year w) of
        (Some org, Some yr) \<Rightarrow> if org \<noteq> [] then Some (yr, org) else None
      | _ \<Rightarrow> None)"

definition observations :: "work list \<Rightarrow> (int \<times> string) list" where
  "observations ws = List.map_filter observation ws"

definition recorded :: "affiliation_year \<Rightarrow> uuid \<times> int \<times> string \<times> int" where
  "recorded r = (aff_candidate_id r, aff_year r, org_name r, evidence_count r)"

section \<open>Notions used to state the properties of retrieval\<close>





section \<open>Concrete inputs\<close>

text \<open>A job, an empty database and three environments: one whose discovery finds nobody,
  one that finds three authors and fails on the works of the second, one that finds one
  author with two works of the same year and organisation. The digest is replaced by the
  length of the token.\<close>

definition example_job :: job where
  "example_job = \<lparr> job_query = ''quantum computing'', job_description = None,
       filters_json = [], job_status = PENDING, job_progress = 0, job_error = None \<rparr>"

definition example_state :: state where
  "example_state = \<lparr> jobs = [0 \<mapsto> example_job], candidates = [], publications = [],
       affiliation_years = [], summaries = [], social_posts = [], embeddings = [],
       next_uuid = 1, queues = (\<lambda>_. []) \<rparr>"

definition example_author :: "string \<Rightarrow> author" where
  "example_author i = \<lparr> au_id = i, display_name = ''Ada'', au_affiliation = None,
       works_count = 20, cited_by_count = 300 \<rparr>"

definition example_work :: work where
  "example_work = \<lparr> w_title = Some ''Quantum error correction'', w_venue = None,
       w_year = Some 2020, w_citations = 12, w_abstract = None,
       org_at_publication = Some ''MIT'', w_work_id = None \<rparr>"

definition env_no_authors :: env where
  "env_no_authors = \<lparr> search_authors = (\<lambda>q n. Inr []), fetch_top_works = (\<lambda>a n. Inr []),
       utcnow_year = 2026, md5_int = length, embed_dim = 4 \<rparr>"

definition env_second_fails :: env where
  "env_second_fails = \<lparr>
       search_authors = (\<lambda>q n. Inr [example_author ''A1'', example_author ''A2'',
                                      example_author ''A3'']),
       fetch_top_works = (\<lambda>a n. if a = ''A2'' then Inl (HTTPStatusError ''503 Service Unavailable'')
                                 else Inr [example_work, example_work]),
       utcnow_year = 2026, md5_int = length, embed_dim = 4 \<rparr>"

definition env_one_author :: env where
  "env_one_author = \<lparr>
       search_authors = (\<lambda>q n. Inr [example_author ''A1'']),
       fetch_top_works = (\<lambda>a n. Inr [example_work, example_work]),
       utcnow_year = 2026, md5_int = length, embed_dim = 4 \<rparr>"

definition example_ctx :: loop_ctx where
  "example_ctx = make_ctx env_second_fails example_job [0, 0, 0, 0] 3"






section \<open>Properties of the scoring functions\<close>

lemma normalized_score_range: "0 \<le> normalized_score v lo hi \<and> normalized_score v lo hi \<le> 1"
  by (auto simp: normalized_score_def divide_le_eq_1)

lemma topical_fit_range: "0 \<le> topical_fit q c \<and> topical_fit q c \<le> 1"
proof -
  have "card (set (map lower_str q) \<inter> set (map lower_str c)) \<le> card (set (map lower_str q))"
    by (rule card_mono) auto
  then show ?thesis
    by (auto simp: topical_fit_def Let_def divide_le_eq_1)
qed

lemma level_index_bound: "list_index level_order x = Inr i \<Longrightarrow> i < 4"
  by (auto simp: level_order_def split: if_splits)

lemma fit_table_values:
  "k \<le> 3 \<Longrightarrow> ([1, 0.8, 0.5, 0.2] :: real list) ! k \<in> {1, 0.8, 0.5, 0.2}"
proof -
  assume "k \<le> 3"
  then have "k = 0 \<or> k = 1 \<or> k = 2 \<or> k = 3" by arith
  then show ?thesis by (auto simp: numeral_2_eq_2 numeral_3_eq_3)
qed

lemma seniority_fit_score_values: "seniority_fit_score a b \<in> {1, 0.8, 0.5, 0.2}"
  unfolding seniority_fit_score_def Let_def
  using fit_table_values[of "min (nat \<bar>int ci - int di\<bar>) 3" for ci di]
  by (auto split: option.splits sum.splits simp del: nth_Cons_numeral nth_Cons_Suc)


subsection \<open>The total score\<close>

lemma score_candidate_bounds:
  assumes "0 \<le> e" and "e \<le> 1" and "0 \<le> sf" and "sf \<le> 1"
  shows "0 \<le> fst (score_candidate kq tc h bc ry cy e sf)
       \<and> fst (score_candidate kq tc h bc ry cy e sf) \<le> 1"
proof -
  define fk where "fk = topical_fit kq tc"
  define n1 where "n1 = normalized_score (real_of_int bc) 0 500"
  define n2 where "n2 = normalized_score h 0 80"
  define r where "r = (case ry of None \<Rightarrow> 0 | Some y \<Rightarrow> if y = 0 then 0
       else normalized_score (real_of_int y) (real_of_int (cy - 15)) (real_of_int cy))"
  have fk: "0 \<le> fk" "fk \<le> 1"
    using topical_fit_range[of kq tc] by (simp_all add: fk_def)
  have n1: "0 \<le> n1" "n1 \<le> 1"
    using normalized_score_range[of "real_of_int bc" 0 500] by (simp_all add: n1_def)
  have n2: "0 \<le> n2" "n2 \<le> 1"
    using normalized_score_range[of h 0 80] by (simp_all add: n2_def)
  have r: "0 \<le> r" "r \<le> 1"
    using normalized_score_range[of _ "real_of_int (cy - 15)" "real_of_int cy"]
    by (auto simp: r_def split: option.splits)
  have eq: "fst (score_candidate kq tc h bc ry cy e sf)
     = 0.45 * (0.5 * fk + 0.5 * e) + 0.30 * (n1 * 0.7 + n2 * 0.3) + 0.15 * r + 0.10 * sf"
    by (simp add: score_candidate_def Let_def fk_def n1_def n2_def r_def)
  have lo: "0 \<le> 0.45 * (0.5 * fk + 0.5 * e) + 0.30 * (n1 * 0.7 + n2 * 0.3) + 0.15 * r
              + 0.10 * sf"
    using fk n1 n2 r assms by simp
  have hi: "0.45 * (0.5 * fk + 0.5 * e) + 0.30 * (n1 * 0.7 + n2 * 0.3) + 0.15 * r
              + 0.10 * sf \<le> 1"
  proof -
    have "0.45 * (0.5 * fk + 0.5 * e) + 0.30 * (n1 * 0.7 + n2 * 0.3) + 0.15 * r + 0.10 * sf
        = (9/40) * fk + (9/40) * e + (21/100) * n1 + (9/100) * n2 + (3/20) * r + (1/10) * sf"
      by (simp add: algebra_simps)
    also have "\<dots> \<le> 9/40 + 9/40 + 21/100 + 9/100 + 3/20 + 1/10"
      using fk n1 n2 r assms by (intro add_mono) simp_all
    finally show ?thesis by simp
  qed
  show ?thesis unfolding eq using lo hi by blast
qed

lemma seniority_fit_score_range: "0 \<le> seniority_fit_score a b \<and> seniority_fit_score a b \<le> 1"
  using seniority_fit_score_values[of a b] by auto


text \<open>
  Claim C1, as it holds on the code. \<^verbatim>\<open>score_candidate\<close> reads \<^verbatim>\<open>embed_similarity\<close>
  as a value that is "already 0..1". For every keyword list, topic list, impact proxy,
  citation count, recent year and current year, every \<open>embed_similarity\<close> between 0 and
  1 and every \<open>seniority_fit\<close> that the fit table produces, the total score lies
  between 0 and 1.
\<close>

theorem score_candidate_total_range:
  assumes "0 \<le> e" and "e \<le> 1"
  shows "0 \<le> fst (score_candidate kq tc h bc ry cy e (seniority_fit_score cl dl))
       \<and> fst (score_candidate kq tc h bc ry cy e (seniority_fit_score cl dl)) \<le> 1"
  using assms seniority_fit_score_range[of cl dl]
  by (intro score_candidate_bounds) simp_all

theorem score_candidate_total_range_witness:
  "0 \<le> fst (score_candidate [''graph''] [''graph''] 9 120 (Some 2024) 2026 (1/2)
            (seniority_fit_score ''senior'' (Some ''mid'')))
   \<and> fst (score_candidate [''graph''] [''graph''] 9 120 (Some 2024) 2026 (1/2)
            (seniority_fit_score ''senior'' (Some ''mid''))) \<le> 1"
  using score_candidate_total_range
          [of "1/2" "[''graph'']" "[''graph'']" 9 120 "Some 2024" 2026 "''senior''" "Some ''mid''"]
  by simp

text \<open>With a cosine of \<open>-1\<close>, which two opposite vectors have, disjoint keywords, no
  citations and an old publication, the total is \<open>-0.125\<close>.\<close>

theorem score_candidate_negative_counterexample:
  "cosine_similarity [1, 0] [- 1, 0] = Inr (- 1)
   \<and> fst (score_candidate [''quantum''] [''zebra''] 0 0 (Some 2005) 2026 (- 1)
           (seniority_fit_score ''principal'' None)) < 0"
  by (simp add: cosine_similarity_def l2_norm_def dot_def score_candidate_def topical_fit_def
        normalized_score_def seniority_fit_score_def lower_str_def)

subsection \<open>The seniority fit\<close>

lemma list_index_Inl_iff: "(\<exists>e. list_index xs x = Inl e) \<longleftrightarrow> x \<notin> set xs"
  by (induction xs) (auto split: sum.splits)

lemma list_index_Inr_iff: "(\<exists>i. list_index xs x = Inr i) \<longleftrightarrow> x \<in> set xs"
  by (induction xs) (auto split: sum.splits)

text \<open>
  Claim C7, as it holds on the code. The fit of a level with itself is 1.0 for each of
  the four levels of the order; for any other non-empty string it is 0.8, the value of
  the \<^verbatim>\<open>ValueError\<close> branch. The fit is symmetric whenever both arguments are set
  (non-empty).
\<close>

theorem seniority_fit_score_levels:
  "(level \<in> set level_order \<longrightarrow> seniority_fit_score level (Some level) = 1)
   \<and> (level \<noteq> [] \<and> level \<notin> set level_order
        \<longrightarrow> seniority_fit_score level (Some level) = 0.8)
   \<and> (a \<noteq> [] \<and> b \<noteq> []
        \<longrightarrow> seniority_fit_score a (Some b) = seniority_fit_score b (Some a))"
proof (intro conjI impI)
  assume "level \<in> set level_order"
  then obtain i where "list_index level_order level = Inr i"
    using list_index_Inr_iff[of level_order level] by blast
  then show "seniority_fit_score level (Some level) = 1"
    by (simp add: seniority_fit_score_def)
next
  assume "level \<noteq> [] \<and> level \<notin> set level_order"
  moreover from this obtain e where "list_index level_order level = Inl e"
    using list_index_Inl_iff[of level_order level] by blast
  ultimately show "seniority_fit_score level (Some level) = 0.8"
    by (simp add: seniority_fit_score_def)
next
  assume "a \<noteq> [] \<and> b \<noteq> []"
  then show "seniority_fit_score a (Some b) = seniority_fit_score b (Some a)"
    by (simp add: seniority_fit_score_def abs_minus_commute split: sum.splits)
qed

theorem seniority_fit_score_levels_witness:
  "seniority_fit_score ''senior'' (Some ''senior'') = 1
   \<and> seniority_fit_score ''guru'' (Some ''guru'') = 0.8
   \<and> seniority_fit_score ''junior'' (Some ''principal'')
       = seniority_fit_score ''principal'' (Some ''junior'')"
  using seniority_fit_score_levels [of "''senior''" "''junior''" "''principal''"]
    seniority_fit_score_levels [of "''guru''" "''junior''" "''principal''"]
  by (simp add: level_order_def)

text \<open>A level outside the order does not fit itself with 1.0.\<close>

theorem seniority_fit_score_unknown_counterexample:
  "seniority_fit_score ''staff'' (Some ''staff'') \<noteq> 1"
  by (simp add: seniority_fit_score_def level_order_def)

subsection \<open>The topical fit\<close>

text \<open>
  Claim C8, as it holds on the code. The topical fit is the size of the intersection of
  the two lowercased sets divided by the larger of 1 and the number of \<^emph>\<open>distinct\<close>
  lowercased keywords; it lies between 0 and 1; it is the quotient by the length of the
  keyword list when the lowercased keywords are pairwise different.
\<close>

theorem topical_fit_formula:
  "topical_fit kq tc =
     real (card (set (map lower_str kq) \<inter> set (map lower_str tc)))
       / real (max 1 (card (set (map lower_str kq))))
   \<and> 0 \<le> topical_fit kq tc \<and> topical_fit kq tc \<le> 1
   \<and> (distinct (map lower_str kq) \<longrightarrow> topical_fit kq tc = topical_fit_spec kq tc)"
proof -
  have form: "topical_fit kq tc =
     real (card (set (map lower_str kq) \<inter> set (map lower_str tc)))
       / real (max 1 (card (set (map lower_str kq))))"
    by (cases "kq = [] \<or> tc = []") (auto simp: topical_fit_def Let_def)
  have "topical_fit kq tc = topical_fit_spec kq tc" if "distinct (map lower_str kq)"
  proof -
    have "card (set (map lower_str kq)) = length kq"
      using distinct_card[OF that] by simp
    then show ?thesis unfolding form topical_fit_spec_def by simp
  qed
  then show ?thesis using form topical_fit_range[of kq tc] by blast
qed

theorem topical_fit_formula_witness:
  "distinct (map lower_str [''Graph'', ''kernel''])
   \<and> topical_fit [''Graph'', ''kernel''] [''graph'']
       = topical_fit_spec [''Graph'', ''kernel''] [''graph'']"
proof -
  have d: "distinct (map lower_str [''Graph'', ''kernel''])" by code_simp
  from topical_fit_formula [of "[''Graph'', ''kernel'']" "[''graph'']"] d
  show ?thesis by blast
qed

text \<open>A keyword that is listed twice, in two spellings, counts once in the divisor.\<close>

theorem topical_fit_duplicate_counterexample:
  "topical_fit [''AI'', ''ai''] [''ai''] = 1
   \<and> topical_fit_spec [''AI'', ''ai''] [''ai''] = 1 / 2"
  by code_simp


section \<open>Properties of run_search\<close>

subsection \<open>What each step leaves untouched\<close>

lemma emit_fields [simp]:
  "jobs (emit jid ev st) = jobs st"
  "candidates (emit jid ev st) = candidates st"
  "publications (emit jid ev st) = publications st"
  "affiliation_years (emit jid ev st) = affiliation_years st"
  "summaries (emit jid ev st) = summaries st"
  "next_uuid (emit jid ev st) = next_uuid st"
  "queues (emit jid ev st) jid = queues st jid @ [ev]"
  by (simp_all add: emit_def)

lemma update_job_fields [simp]:
  "candidates (update_job jid f st) = candidates st"
  "publications (update_job jid f st) = publications st"
  "affiliation_years (update_job jid f st) = affiliation_years st"
  "summaries (update_job jid f st) = summaries st"
  "next_uuid (update_job jid f st) = next_uuid st"
  "queues (update_job jid f st) = queues st"
  "jobs (update_job jid f st) jid = map_option f (jobs st jid)"
  by (simp_all add: update_job_def split: option.splits)

lemma commit_fields [simp]:
  "jobs (commit ss) = jobs (fst ss)"
  "queues (commit ss) = queues (fst ss)"
  "candidates (commit ss) = candidates (fst ss)"
  "next_uuid (commit ss) = next_uuid (fst ss)"
  "publications (commit ss) = publications (fst ss) @ pending_publications (snd ss)"
  "affiliation_years (commit ss) = affiliation_years (fst ss) @ pending_affiliations (snd ss)"
  "summaries (commit ss) = summaries (fst ss) @ pending_summaries (snd ss)"
  by (simp_all add: commit_def case_prod_beta)

lemma upsert_affiliation_fields [simp]:
  "jobs (fst (upsert_affiliation cid yr org ss)) = jobs (fst ss)"
  "queues (fst (upsert_affiliation cid yr org ss)) = queues (fst ss)"
  "candidates (fst (upsert_affiliation cid yr org ss)) = candidates (fst ss)"
  "publications (fst (upsert_affiliation cid yr org ss)) = publications (fst ss)"
  "summaries (fst (upsert_affiliation cid yr org ss)) = summaries (fst ss)"
  "pending_summaries (snd (upsert_affiliation cid yr org ss)) = pending_summaries (snd ss)"
  by (simp_all add: upsert_affiliation_def case_prod_beta split: option.splits)

lemma persist_work_fields [simp]:
  "jobs (fst (persist_work cid ss w)) = jobs (fst ss)"
  "queues (fst (persist_work cid ss w)) = queues (fst ss)"
  "candidates (fst (persist_work cid ss w)) = candidates (fst ss)"
  "publications (fst (persist_work cid ss w)) = publications (fst ss)"
  "summaries (fst (persist_work cid ss w)) = summaries (fst ss)"
  "pending_summaries (snd (persist_work cid ss w)) = pending_summaries (snd ss)"
  by (simp_all add: persist_work_def Let_def case_prod_beta split: option.splits)

lemma foldl_persist_work_fields [simp]:
  "jobs (fst (foldl (persist_work cid) ss ws)) = jobs (fst ss)"
  "queues (fst (foldl (persist_work cid) ss ws)) = queues (fst ss)"
  "candidates (fst (foldl (persist_work cid) ss ws)) = candidates (fst ss)"
  "publications (fst (foldl (persist_work cid) ss ws)) = publications (fst ss)"
  "summaries (fst (foldl (persist_work cid) ss ws)) = summaries (fst ss)"
  "pending_summaries (snd (foldl (persist_work cid) ss ws)) = pending_summaries (snd ss)"
  by (induction ws arbitrary: ss) simp_all

lemma persist_candidate_fields [simp]:
  "jobs (fst (persist_candidate a enr st)) = jobs st"
  "queues (fst (persist_candidate a enr st)) = queues st"
  "candidates (fst (persist_candidate a enr st)) = candidates st @ [snd (persist_candidate a enr st)]"
  "length (summaries (fst (persist_candidate a enr st))) = Suc (length (summaries st))"
  by (simp_all add: persist_candidate_def Let_def case_prod_beta new_session_def)

lemma complete_author_unfold:
  "complete_author jid ctx step a enr st =
     emit jid (ProgressEvent (progress_value step (ctx_total ctx)))
       (update_job jid (\<lambda>j. j\<lparr>job_progress := progress_value step (ctx_total ctx)\<rparr>)
          (emit jid (CandidateEvent
                     \<lparr> ev_candidate_id = cand_id (snd (persist_candidate a enr st)),
                       ev_name = cand_name (snd (persist_candidate a enr st)),
                       ev_affiliation = cand_affiliation (snd (persist_candidate a enr st)),
                       ev_topics = enr_topics enr,
                       ev_score = enr_score enr,
                       ev_seniority = enr_seniority_level enr \<rparr>)
             (fst (persist_candidate a enr st))))"
  by (simp add: complete_author_def Let_def case_prod_beta)

lemma complete_author_queue:
  "\<exists>p. queues (complete_author jid ctx step a enr st) jid
        = queues st jid @ [CandidateEvent p, ProgressEvent (progress_value step (ctx_total ctx))]"
  by (simp add: complete_author_unfold)

lemma complete_author_jobs:
  "jobs (complete_author jid ctx step a enr st) jid
     = map_option (\<lambda>j. j\<lparr>job_progress := progress_value step (ctx_total ctx)\<rparr>) (jobs st jid)"
  by (simp add: complete_author_unfold)

lemma complete_author_candidates:
  "candidates (complete_author jid ctx step a enr st)
     = candidates st @ [snd (persist_candidate a enr st)]"
  by (simp add: complete_author_unfold)

lemma enrich_loop_append:
  assumes "\<forall>b \<in> set pre. \<exists>enr. enrich e ctx b = Inr enr"
  shows "snd (enrich_loop e jid ctx step pre st) = None
       \<and> enrich_loop e jid ctx step (pre @ rest) st
           = enrich_loop e jid ctx (step + length pre) rest (fst (enrich_loop e jid ctx step pre st))"
  using assms
proof (induction pre arbitrary: step st)
  case Nil
  then show ?case by simp
next
  case (Cons b pre)
  then obtain enr where enr: "enrich e ctx b = Inr enr" by auto
  from Cons.prems have "\<forall>b \<in> set pre. \<exists>enr. enrich e ctx b = Inr enr" by simp
  from Cons.IH[OF this, of "step + 1" "complete_author jid ctx (step + 1) b enr st"]
  show ?case by (simp add: enr)
qed

lemma enrich_loop_ok_queue:
  assumes "\<forall>b \<in> set as. \<exists>enr. enrich e ctx b = Inr enr"
  shows "\<exists>evs. queues (fst (enrich_loop e jid ctx step as st)) jid = queues st jid @ evs
           \<and> length (filter is_candidate_event evs) = length as
           \<and> filter is_error_event evs = []
           \<and> filter is_finished_event evs = []
           \<and> filter is_progress_event evs
               = map (\<lambda>k. ProgressEvent (progress_value k (ctx_total ctx))) [step + 1 ..< step + 1 + length as]"
  using assms
proof (induction as arbitrary: step st)
  case Nil
  then show ?case by simp
next
  case (Cons b as)
  then obtain enr where enr: "enrich e ctx b = Inr enr" by auto
  from Cons.prems have ok: "\<forall>b \<in> set as. \<exists>enr. enrich e ctx b = Inr enr" by simp
  define st1 where "st1 = complete_author jid ctx (step + 1) b enr st"
  obtain p where q1: "queues st1 jid = queues st jid @ [CandidateEvent p, ProgressEvent (progress_value (step + 1) (ctx_total ctx))]"
    using complete_author_queue[of jid ctx "step + 1" b enr st] unfolding st1_def by blast
  from Cons.IH[OF ok, of "step + 1" st1]
  obtain evs where evs: "queues (fst (enrich_loop e jid ctx (step + 1) as st1)) jid = queues st1 jid @ evs"
     "length (filter is_candidate_event evs) = length as"
     "filter is_error_event evs = []" "filter is_finished_event evs = []"
     "filter is_progress_event evs = map (\<lambda>k. ProgressEvent (progress_value k (ctx_total ctx))) [step + 1 + 1 ..< step + 1 + 1 + length as]"
    by blast
  let ?evs = "[CandidateEvent p, ProgressEvent (progress_value (step + 1) (ctx_total ctx))] @ evs"
  have "[step + 1 ..< step + 1 + length (b # as)] = (step + 1) # [step + 1 + 1 ..< step + 1 + 1 + length as]"
    by (simp add: upt_rec)
  then have "queues (fst (enrich_loop e jid ctx step (b # as) st)) jid = queues st jid @ ?evs
           \<and> length (filter is_candidate_event ?evs) = length (b # as)
           \<and> filter is_error_event ?evs = []
           \<and> filter is_finished_event ?evs = []
           \<and> filter is_progress_event ?evs
               = map (\<lambda>k. ProgressEvent (progress_value k (ctx_total ctx))) [step + 1 ..< step + 1 + length (b # as)]"
    using evs q1 by (simp add: enr st1_def)
  then show ?case by blast
qed


lemma enrich_loop_ok_jobs:
  assumes "\<forall>b \<in> set as. \<exists>enr. enrich e ctx b = Inr enr"
  shows "jobs (fst (enrich_loop e jid ctx step as st)) jid
       = (if as = [] then jobs st jid
          else map_option (\<lambda>j. j\<lparr>job_progress := progress_value (step + length as) (ctx_total ctx)\<rparr>)
                 (jobs st jid))"
  using assms
proof (induction as arbitrary: step st)
  case Nil
  then show ?case by simp
next
  case (Cons b as)
  then obtain enr where enr: "enrich e ctx b = Inr enr" by auto
  from Cons.prems have ok: "\<forall>b \<in> set as. \<exists>enr. enrich e ctx b = Inr enr" by simp
  show ?case
    using Cons.IH[OF ok, of "step + 1" "complete_author jid ctx (step + 1) b enr st"]
    by (simp add: enr complete_author_jobs option.map_comp comp_def)
qed

lemma enrich_loop_ok_last:
  assumes "\<forall>b \<in> set as. \<exists>enr. enrich e ctx b = Inr enr" and "as \<noteq> []"
  shows "last (queues (fst (enrich_loop e jid ctx step as st)) jid)
       = ProgressEvent (progress_value (step + length as) (ctx_total ctx))"
  using assms
proof (induction as arbitrary: step st)
  case Nil
  then show ?case by simp
next
  case (Cons b as)
  then obtain enr where enr: "enrich e ctx b = Inr enr" by auto
  from Cons.prems have ok: "\<forall>b \<in> set as. \<exists>enr. enrich e ctx b = Inr enr" by simp
  show ?case
  proof (cases "as = []")
    case True
    then show ?thesis
      using complete_author_queue[of jid ctx "step + 1" b enr st] by (auto simp: enr)
  next
    case False
    then show ?thesis
      using Cons.IH[OF ok False, of "step + 1" "complete_author jid ctx (step + 1) b enr st"]
      by (simp add: enr)
  qed
qed

lemma enrich_loop_ok_candidates:
  assumes "\<forall>b \<in> set as. \<exists>enr. enrich e ctx b = Inr enr"
  shows "\<exists>cs. candidates (fst (enrich_loop e jid ctx step as st)) = candidates st @ cs
             \<and> length cs = length as"
  using assms
proof (induction as arbitrary: step st)
  case Nil
  then show ?case by simp
next
  case (Cons b as)
  then obtain enr where enr: "enrich e ctx b = Inr enr" by auto
  from Cons.prems have ok: "\<forall>b \<in> set as. \<exists>enr. enrich e ctx b = Inr enr" by simp
  from Cons.IH[OF ok, of "step + 1" "complete_author jid ctx (step + 1) b enr st"]
  obtain cs where "candidates (fst (enrich_loop e jid ctx (step + 1) as
                      (complete_author jid ctx (step + 1) b enr st)))
                    = candidates (complete_author jid ctx (step + 1) b enr st) @ cs"
      "length cs = length as" by blast
  then have "candidates (fst (enrich_loop e jid ctx step (b # as) st))
              = candidates st @ (snd (persist_candidate b enr st) # cs)
           \<and> length (snd (persist_candidate b enr st) # cs) = length (b # as)"
    by (simp add: enr complete_author_candidates)
  then show ?case by blast
qed

lemma discover_query_of_upd [simp]:
  "discover_query_of (j\<lparr>job_status := s, job_progress := p\<rparr>) = discover_query_of j"
  "job_text_of (j\<lparr>job_status := s, job_progress := p\<rparr>) = job_text_of j"
  "make_ctx e (j\<lparr>job_status := s, job_progress := p\<rparr>) v n = make_ctx e j v n"
  by (simp_all add: discover_query_of_def job_text_of_def make_ctx_def)

lemma start_job_fields [simp]:
  "candidates (start_job jid st) = candidates st"
  "publications (start_job jid st) = publications st"
  "affiliation_years (start_job jid st) = affiliation_years st"
  "summaries (start_job jid st) = summaries st"
  "queues (start_job jid st) jid = queues st jid @ [ProgressEvent 1]"
  by (simp_all add: start_job_def)

lemma start_job_jobs:
  "jobs st jid = Some j \<Longrightarrow>
   jobs (start_job jid st) jid = Some (j\<lparr>job_status := RUNNING, job_progress := 1\<rparr>)"
  by (simp add: start_job_def)

subsection \<open>When the enrichment of an author succeeds\<close>

lemma accumulate_Inr:
  "0 < edim \<Longrightarrow> \<exists>v. accumulate md5 edim toks vec = Inr v \<and> length v = length vec"
proof (induction toks arbitrary: vec)
  case Nil
  then show ?case by simp
next
  case (Cons tok toks)
  show ?case
    using Cons.IH[OF Cons.prems, of "vec[md5 tok mod edim := vec ! (md5 tok mod edim)
              + (if (md5 tok div 2) mod 2 = 1 then - 1 else 1)]"] Cons.prems
    by (simp add: Let_def)
qed

lemma embed_Inr:
  assumes "0 < edim"
  shows "\<exists>v. embed md5 edim t = Inr v \<and> length v = edim"
proof -
  obtain v where "accumulate md5 edim (tokenize t) (replicate edim 0) = Inr v" "length v = edim"
    using accumulate_Inr[OF assms, of md5 "tokenize t" "replicate edim 0"] by auto
  then show ?thesis by (simp add: embed_def Let_def)
qed

lemma enrich_fetch_error:
  "fetch_top_works e (au_id a) 10 = Inl err \<Longrightarrow> enrich e ctx a = Inl err"
  by (simp add: enrich_def)

lemma enrich_text_error:
  "fetch_top_works e (au_id a) 10 = Inr ws \<Longrightarrow> work_texts ws = Inl err \<Longrightarrow> enrich e ctx a = Inl err"
  by (simp add: enrich_def)

lemma enrich_succeeds:
  assumes "fetch_top_works e (au_id a) 10 = Inr ws" and "work_texts ws = Inr ts"
    and "0 < embed_dim e" and "length (ctx_job_vec ctx) = embed_dim e"
  shows "\<exists>enr. enrich e ctx a = Inr enr"
proof -
  obtain v where v: "embed (md5_int e) (embed_dim e) (take 8000 (join_nl2 ts)) = Inr v"
      "length v = embed_dim e"
    using embed_Inr[OF assms(3)] by blast
  then have "\<exists>c. cosine_similarity v (ctx_job_vec ctx) = Inr c"
    using assms(4) by (simp add: cosine_similarity_def Let_def)
  then obtain c where c: "cosine_similarity v (ctx_job_vec ctx) = Inr c" by blast
  show ?thesis
    unfolding enrich_def by (simp add: assms(1,2) v c Let_def case_prod_beta)
qed

text \<open>The progress values for up to ten authors, each obtained by carrying out the three
  rounded operations: they are the exact quotients rounded down.\<close>

lemmas float_eval = binary64_def binade_def pow2_def round_half_even_def py_int_def Let_def
  compute_bitlen

lemma progress_value_total_1:
  assumes "1 \<le> s" and "s \<le> 1"
  shows "progress_value s 1 = (5 * 1 + 90 * int s) div 1"
proof -
  from assms have "s = 1" by arith
  then show ?thesis
    by (simp add: progress_value_def float_eval)
qed

lemma progress_value_total_2:
  assumes "1 \<le> s" and "s \<le> 2"
  shows "progress_value s 2 = (5 * 2 + 90 * int s) div 2"
proof -
  from assms have "s = 1 \<or> s = 2" by arith
  then show ?thesis
    by (elim disjE) (simp_all add: progress_value_def float_eval)
qed

lemma progress_value_total_3:
  assumes "1 \<le> s" and "s \<le> 3"
  shows "progress_value s 3 = (5 * 3 + 90 * int s) div 3"
proof -
  from assms have "s = 1 \<or> s = 2 \<or> s = 3" by arith
  then show ?thesis
    by (elim disjE) (simp_all add: progress_value_def float_eval)
qed

lemma progress_value_total_4:
  assumes "1 \<le> s" and "s \<le> 4"
  shows "progress_value s 4 = (5 * 4 + 90 * int s) div 4"
proof -
  from assms have "s = 1 \<or> s = 2 \<or> s = 3 \<or> s = 4" by arith
  then show ?thesis
    by (elim disjE) (simp_all add: progress_value_def float_eval)
qed

lemma progress_value_total_5:
  assumes "1 \<le> s" and "s \<le> 5"
  shows "progress_value s 5 = (5 * 5 + 90 * int s) div 5"
proof -
  from assms have "s = 1 \<or> s = 2 \<or> s = 3 \<or> s = 4 \<or> s = 5" by arith
  then show ?thesis
    by (elim disjE) (simp_all add: progress_value_def float_eval)
qed

lemma progress_value_total_6:
  assumes "1 \<le> s" and "s \<le> 6"
  shows "progress_value s 6 = (5 * 6 + 90 * int s) div 6"
proof -
  from assms have "s = 1 \<or> s = 2 \<or> s = 3 \<or> s = 4 \<or> s = 5 \<or> s = 6" by arith
  then show ?thesis
    by (elim disjE) (simp_all add: progress_value_def float_eval)
qed

lemma progress_value_total_7:
  assumes "1 \<le> s" and "s \<le> 7"
  shows "progress_value s 7 = (5 * 7 + 90 * int s) div 7"
proof -
  from assms have "s = 1 \<or> s = 2 \<or> s = 3 \<or> s = 4 \<or> s = 5 \<or> s = 6 \<or> s = 7" by arith
  then show ?thesis
    by (elim disjE) (simp_all add: progress_value_def float_eval)
qed

lemma progress_value_total_8:
  assumes "1 \<le> s" and "s \<le> 8"
  shows "progress_value s 8 = (5 * 8 + 90 * int s) div 8"
proof -
  from assms have "s = 1 \<or> s = 2 \<or> s = 3 \<or> s = 4 \<or> s = 5 \<or> s = 6 \<or> s = 7 \<or> s = 8" by arith
  then show ?thesis
    by (elim disjE) (simp_all add: progress_value_def float_eval)
qed

lemma progress_value_total_9:
  assumes "1 \<le> s" and "s \<le> 9"
  shows "progress_value s 9 = (5 * 9 + 90 * int s) div 9"
proof -
  from assms have "s = 1 \<or> s = 2 \<or> s = 3 \<or> s = 4 \<or> s = 5 \<or> s = 6 \<or> s = 7 \<or> s = 8 \<or> s = 9" by arith
  then show ?thesis
    by (elim disjE) (simp_all add: progress_value_def float_eval)
qed

lemma progress_value_total_10:
  assumes "1 \<le> s" and "s \<le> 10"
  shows "progress_value s 10 = (5 * 10 + 90 * int s) div 10"
proof -
  from assms have "s = 1 \<or> s = 2 \<or> s = 3 \<or> s = 4 \<or> s = 5 \<or> s = 6 \<or> s = 7 \<or> s = 8 \<or> s = 9 \<or> s = 10" by arith
  then show ?thesis
    by (elim disjE) (simp_all add: progress_value_def float_eval)
qed

lemma progress_value_upto_10:
  assumes "1 \<le> t" and "t \<le> 10" and "1 \<le> s" and "s \<le> t"
  shows "progress_value s t = (5 * int t + 90 * int s) div int t"
proof -
  from assms(1,2) have "t = 1 \<or> t = 2 \<or> t = 3 \<or> t = 4 \<or> t = 5 \<or> t = 6 \<or> t = 7 \<or> t = 8
      \<or> t = 9 \<or> t = 10" by arith
  then show ?thesis
    using assms(3,4)
      progress_value_total_1[of s] progress_value_total_2[of s] progress_value_total_3[of s]
      progress_value_total_4[of s] progress_value_total_5[of s] progress_value_total_6[of s]
      progress_value_total_7[of s] progress_value_total_8[of s] progress_value_total_9[of s]
      progress_value_total_10[of s]
    by (elim disjE) simp_all
qed

lemma floor_progress:
  assumes "1 \<le> t"
  shows "\<lfloor>5 + 90 * (real s / real t)\<rfloor> = (5 * int t + 90 * int s) div int t"
proof -
  have t: "real t > 0" using assms by simp
  have "5 + 90 * (real s / real t) = real_of_int (5 * int t + 90 * int s) / real_of_int (int t)"
    using t by (simp add: field_simps)
  then show ?thesis
    by (simp only: floor_divide_of_int_eq)
qed

text \<open>With 45 authors the rounding shows: \<open>13 / 45\<close> rounds to a float whose product with
  90 rounds to the float just below 26, so the value after the 13th author is 30, one
  less than the exact quotient rounded down.\<close>

lemma progress_value_13_of_45:
  "progress_value 13 45 = 30 \<and> (5 * 45 + 90 * 13) div 45 = (31::int)"
  by (simp add: progress_value_def float_eval)

subsection \<open>Empty discovery\<close>

text \<open>
  Claim C5. When the discovery call of a job returns the empty list, the run ends with
  the job \<^verbatim>\<open>DONE\<close> at progress 100 and no error recorded; the events it emitted are
  the initial progress event and one \<^verbatim>\<open>finished\<close> event, so no \<^verbatim>\<open>candidate\<close> and no
  \<^verbatim>\<open>error\<close> event; no candidate row is written.
\<close>

theorem run_search_no_authors:
  assumes job: "jobs st jid = Some j"
    and disc: "search_authors e (discover_query_of j) 10 = Inr []"
  shows "(\<exists>j'. jobs (run_search e jid st) jid = Some j' \<and> job_status j' = DONE
              \<and> job_progress j' = 100 \<and> job_error j' = job_error j)
       \<and> emitted st (run_search e jid st) jid = [ProgressEvent 1, FinishedEvent]
       \<and> length (filter is_candidate_event (emitted st (run_search e jid st) jid)) = 0
       \<and> length (filter is_finished_event (emitted st (run_search e jid st) jid)) = 1
       \<and> length (filter is_error_event (emitted st (run_search e jid st) jid)) = 0
       \<and> candidates (run_search e jid st) = candidates st"
proof -
  let ?j1 = "j\<lparr>job_status := RUNNING, job_progress := 1\<rparr>"
  have j1: "jobs (start_job jid st) jid = Some ?j1" by (rule start_job_jobs[OF job])
  have body: "run_body e jid (start_job jid st)
      = (emit jid FinishedEvent
           (update_job jid (\<lambda>j. j\<lparr>job_status := DONE, job_progress := 100\<rparr>) (start_job jid st)),
         None)"
    by (simp add: run_body_def j1 disc)
  have run: "run_search e jid st
      = emit jid FinishedEvent
           (update_job jid (\<lambda>j. j\<lparr>job_status := DONE, job_progress := 100\<rparr>) (start_job jid st))"
    by (simp add: run_search_def job body)
  show ?thesis
    unfolding run by (simp add: emitted_def j1)
qed

theorem run_search_no_authors_witness:
  "jobs example_state 0 = Some example_job
   \<and> search_authors env_no_authors (discover_query_of example_job) 10 = Inr []
   \<and> (\<exists>j'. jobs (run_search env_no_authors 0 example_state) 0 = Some j' \<and> job_status j' = DONE
              \<and> job_progress j' = 100)
   \<and> emitted example_state (run_search env_no_authors 0 example_state) 0
        = [ProgressEvent 1, FinishedEvent]"
proof -
  have job: "jobs example_state 0 = Some example_job"
    by (simp add: example_state_def)
  have disc: "search_authors env_no_authors (discover_query_of example_job) 10 = Inr []"
    by (simp add: env_no_authors_def)
  from run_search_no_authors [OF job disc] job disc show ?thesis by blast
qed

subsection \<open>A failing enrichment\<close>

text \<open>
  Claim C2. Let discovery return the authors \<open>pre @ a # post\<close>, let the enrichment of
  every author of \<open>pre\<close> succeed and the enrichment of \<open>a\<close> raise \<open>err\<close>. Then the run
  ends with the job in status \<^verbatim>\<open>ERROR\<close> and its error field set to the message of
  \<open>err\<close>; exactly one \<^verbatim>\<open>error\<close> event was emitted, as the last event; the number of
  \<^verbatim>\<open>candidate\<close> events is the length of \<open>pre\<close>, so none of \<open>post\<close> was processed, and
  there is no \<^verbatim>\<open>finished\<close> event; the candidate, publication, summary and
  affiliation tables are exactly those of the state \<open>mid\<close> reached after the last
  author of \<open>pre\<close>, which holds the earlier rows and one more candidate per author of
  \<open>pre\<close>: nothing is rolled back.
\<close>

theorem run_search_enrichment_error:
  assumes job: "jobs st jid = Some j"
    and disc: "search_authors e (discover_query_of j) 10 = Inr (pre @ a # post)"
    and vec: "embed (md5_int e) (embed_dim e) (str_or (job_text_of j) (job_query j)) = Inr job_vec"
    and ctx: "ctx = make_ctx e j job_vec (length (pre @ a # post))"
    and ok: "\<forall>b \<in> set pre. \<exists>enr. enrich e ctx b = Inr enr"
    and fail: "enrich e ctx a = Inl err"
    and mid: "mid = fst (enrich_loop e jid ctx 0 pre (start_job jid st))"
  shows "(\<exists>j'. jobs (run_search e jid st) jid = Some j' \<and> job_status j' = ERROR
              \<and> job_error j' = Some (message err))
       \<and> length (filter is_error_event (emitted st (run_search e jid st) jid)) = 1
       \<and> last (queues (run_search e jid st) jid) = ErrorEvent (message err)
       \<and> length (filter is_candidate_event (emitted st (run_search e jid st) jid)) = length pre
       \<and> length (filter is_finished_event (emitted st (run_search e jid st) jid)) = 0
       \<and> candidates (run_search e jid st) = candidates mid
       \<and> publications (run_search e jid st) = publications mid
       \<and> summaries (run_search e jid st) = summaries mid
       \<and> affiliation_years (run_search e jid st) = affiliation_years mid
       \<and> length (candidates mid) = length (candidates st) + length pre
       \<and> take (length (candidates st)) (candidates mid) = candidates st"
proof -
  let ?j1 = "j\<lparr>job_status := RUNNING, job_progress := 1\<rparr>"
  let ?s0 = "start_job jid st"
  have j1: "jobs ?s0 jid = Some ?j1" by (rule start_job_jobs[OF job])
  have loop: "enrich_loop e jid ctx 0 (pre @ a # post) ?s0 = (mid, Some err)"
    using enrich_loop_append[OF ok, where jid=jid and step=0 and rest="a # post" and st="?s0"] by (simp add: fail mid)
  have body: "run_body e jid ?s0 = (mid, Some err)"
    using loop by (simp add: run_body_def j1 disc vec ctx)
  have run: "run_search e jid st
      = emit jid (ErrorEvent (message err))
          (update_job jid (\<lambda>j. j\<lparr>job_status := ERROR, job_error := Some (message err)\<rparr>) mid)"
    by (simp add: run_search_def job body)
  obtain evs where evs: "queues mid jid = queues ?s0 jid @ evs"
      "length (filter is_candidate_event evs) = length pre"
      "filter is_error_event evs = []" "filter is_finished_event evs = []"
    using enrich_loop_ok_queue[OF ok, where jid=jid and step=0 and st="?s0"] unfolding mid by blast
  have jm: "jobs mid jid = (if pre = [] then Some ?j1
        else Some (?j1\<lparr>job_progress := progress_value (length pre) (ctx_total ctx)\<rparr>))"
    using enrich_loop_ok_jobs[OF ok, where jid=jid and step=0 and st="?s0"] by (simp add: mid j1)
  obtain cs where cs: "candidates mid = candidates st @ cs" "length cs = length pre"
    using enrich_loop_ok_candidates[OF ok, where jid=jid and step=0 and st="?s0"] unfolding mid by auto
  have q: "queues (run_search e jid st) jid
      = queues st jid @ [ProgressEvent 1] @ evs @ [ErrorEvent (message err)]"
    unfolding run by (simp add: evs)
  have em: "emitted st (run_search e jid st) jid = [ProgressEvent 1] @ evs @ [ErrorEvent (message err)]"
    unfolding emitted_def q by simp
  have "\<exists>j'. jobs (run_search e jid st) jid = Some j' \<and> job_status j' = ERROR
              \<and> job_error j' = Some (message err)"
    unfolding run by (simp add: jm)
  moreover have "last (queues (run_search e jid st) jid) = ErrorEvent (message err)"
    unfolding q by simp
  ultimately show ?thesis
    unfolding em using evs cs by (simp add: run)
qed

theorem run_search_enrichment_error_witness:
  "jobs example_state 0 = Some example_job
   \<and> search_authors env_second_fails (discover_query_of example_job) 10
       = Inr ([example_author ''A1''] @ example_author ''A2'' # [example_author ''A3''])
   \<and> (\<exists>j'. jobs (run_search env_second_fails 0 example_state) 0 = Some j'
            \<and> job_status j' = ERROR \<and> job_error j' = Some ''503 Service Unavailable'')
   \<and> length (filter is_error_event
               (emitted example_state (run_search env_second_fails 0 example_state) 0)) = 1
   \<and> length (filter is_candidate_event
               (emitted example_state (run_search env_second_fails 0 example_state) 0)) = 1
   \<and> length (candidates (run_search env_second_fails 0 example_state)) = 1"
proof -
  let ?e = env_second_fails
  have job: "jobs example_state 0 = Some example_job"
    by (simp add: example_state_def)
  have disc: "search_authors ?e (discover_query_of example_job) 10
       = Inr ([example_author ''A1''] @ example_author ''A2'' # [example_author ''A3''])"
    by (simp add: env_second_fails_def)
  have dim: "0 < embed_dim ?e" by (simp add: env_second_fails_def)
  obtain job_vec where
    vec: "embed (md5_int ?e) (embed_dim ?e)
            (str_or (job_text_of example_job) (job_query example_job)) = Inr job_vec"
    and len: "length job_vec = embed_dim ?e"
    using embed_Inr[OF dim] by blast
  define ctx where "ctx = make_ctx ?e example_job job_vec
      (length ([example_author ''A1''] @ example_author ''A2'' # [example_author ''A3'']))"
  have "\<exists>enr. enrich ?e ctx (example_author ''A1'') = Inr enr"
  proof (rule enrich_succeeds[OF _ _ dim])
    show "fetch_top_works ?e (au_id (example_author ''A1'')) 10 = Inr [example_work, example_work]"
      by (simp add: env_second_fails_def example_author_def)
    show "work_texts [example_work, example_work]
            = Inr [''Quantum error correction'' @ [CHR 0x0A], ''Quantum error correction'' @ [CHR 0x0A]]"
      by (simp add: work_text_def example_work_def)
    show "length (ctx_job_vec ctx) = embed_dim ?e"
      by (simp add: ctx_def make_ctx_def len)
  qed
  then have ok: "\<forall>b \<in> set [example_author ''A1'']. \<exists>enr. enrich ?e ctx b = Inr enr"
    by simp
  have fail: "enrich ?e ctx (example_author ''A2'') = Inl (HTTPStatusError ''503 Service Unavailable'')"
    by (rule enrich_fetch_error) (simp add: env_second_fails_def example_author_def)
  from run_search_enrichment_error [OF job disc vec ctx_def ok fail refl]
  show ?thesis using job disc by (simp add: example_state_def)
qed

subsection \<open>Progress after an author\<close>

text \<open>
  Claim C6, as it holds on the code. With \<open>1 \<le> total \<le> 10\<close> (the discovery call asks for
  ten authors), after the loop has completed the author number
  \<open>step = length pre + 1 \<le> total\<close>, the progress stored in the job and carried by the last
  emitted event is \<open>5 + 90 \<cdot> (step / total)\<close> rounded down to an integer (\<^verbatim>\<open>int()\<close>
  truncates), that is \<open>(5 \<cdot> total + 90 \<cdot> step) div total\<close>; the loop goes on from that state
  with the remaining authors.
\<close>

theorem progress_after_author:
  assumes job: "jobs st jid = Some j"
    and tot: "1 \<le> ctx_total ctx"
    and bound: "ctx_total ctx \<le> 10"
    and step: "length pre + 1 \<le> ctx_total ctx"
    and ok: "\<forall>b \<in> set (pre @ [a]). \<exists>enr. enrich e ctx b = Inr enr"
  shows "(\<exists>j'. jobs (fst (enrich_loop e jid ctx 0 (pre @ [a]) st)) jid = Some j'
            \<and> job_progress j' = \<lfloor>5 + 90 * (real (length pre + 1) / real (ctx_total ctx))\<rfloor>)
       \<and> last (queues (fst (enrich_loop e jid ctx 0 (pre @ [a]) st)) jid)
           = ProgressEvent \<lfloor>5 + 90 * (real (length pre + 1) / real (ctx_total ctx))\<rfloor>
       \<and> \<lfloor>5 + 90 * (real (length pre + 1) / real (ctx_total ctx))\<rfloor>
           = (5 * int (ctx_total ctx) + 90 * int (length pre + 1)) div int (ctx_total ctx)
       \<and> enrich_loop e jid ctx 0 ((pre @ [a]) @ post) st
           = enrich_loop e jid ctx (length pre + 1) post
               (fst (enrich_loop e jid ctx 0 (pre @ [a]) st))"
proof -
  have fl: "\<lfloor>5 + 90 * (real (length pre + 1) / real (ctx_total ctx))\<rfloor>
      = (5 * int (ctx_total ctx) + 90 * int (length pre + 1)) div int (ctx_total ctx)"
    by (rule floor_progress[OF tot])
  have pv: "progress_value (length pre + 1) (ctx_total ctx)
      = \<lfloor>5 + 90 * (real (length pre + 1) / real (ctx_total ctx))\<rfloor>"
    using progress_value_upto_10[OF tot bound _ step] fl by simp
  have j: "jobs (fst (enrich_loop e jid ctx 0 (pre @ [a]) st)) jid
      = Some (j\<lparr>job_progress := progress_value (length pre + 1) (ctx_total ctx)\<rparr>)"
    using enrich_loop_ok_jobs[OF ok, where jid=jid and step=0 and st=st] by (simp add: job)
  have l: "last (queues (fst (enrich_loop e jid ctx 0 (pre @ [a]) st)) jid)
      = ProgressEvent (progress_value (length pre + 1) (ctx_total ctx))"
    using enrich_loop_ok_last[OF ok, where jid=jid and step=0 and st=st] by simp
  have c: "enrich_loop e jid ctx 0 ((pre @ [a]) @ post) st
           = enrich_loop e jid ctx (length pre + 1) post
               (fst (enrich_loop e jid ctx 0 (pre @ [a]) st))"
    using enrich_loop_append[OF ok, where jid=jid and step=0 and st=st and rest=post] by simp
  show ?thesis
    using j l c pv fl by simp
qed

theorem progress_after_author_witness:
  "jobs example_state 0 = Some example_job
   \<and> 1 \<le> ctx_total example_ctx
   \<and> ctx_total example_ctx \<le> 10
   \<and> length ([] :: author list) + 1 \<le> ctx_total example_ctx
   \<and> (\<exists>j'. jobs (fst (enrich_loop env_second_fails 0 example_ctx 0
                         ([] @ [example_author ''A1'']) example_state)) 0 = Some j'
            \<and> job_progress j' = 35)
   \<and> last (queues (fst (enrich_loop env_second_fails 0 example_ctx 0
                          ([] @ [example_author ''A1'']) example_state)) 0)
       = ProgressEvent 35"
proof -
  let ?e = env_second_fails
  have job: "jobs example_state 0 = Some example_job"
    by (simp add: example_state_def)
  have tot: "1 \<le> ctx_total example_ctx"
    by (simp add: example_ctx_def make_ctx_def)
  have bound: "ctx_total example_ctx \<le> 10"
    by (simp add: example_ctx_def make_ctx_def)
  have step: "length ([] :: author list) + 1 \<le> ctx_total example_ctx"
    by (simp add: example_ctx_def make_ctx_def)
  have dim: "0 < embed_dim ?e" by (simp add: env_second_fails_def)
  have "\<exists>enr. enrich ?e example_ctx (example_author ''A1'') = Inr enr"
  proof (rule enrich_succeeds[OF _ _ dim])
    show "fetch_top_works ?e (au_id (example_author ''A1'')) 10
            = Inr [example_work, example_work]"
      by (simp add: env_second_fails_def example_author_def)
    show "work_texts [example_work, example_work]
            = Inr [''Quantum error correction'' @ [CHR 0x0A],
                   ''Quantum error correction'' @ [CHR 0x0A]]"
      by (simp add: work_text_def example_work_def)
    show "length (ctx_job_vec example_ctx) = embed_dim ?e"
      by (simp add: example_ctx_def make_ctx_def env_second_fails_def)
  qed
  then have ok: "\<forall>b \<in> set ([] @ [example_author ''A1'']).
                   \<exists>enr. enrich ?e example_ctx b = Inr enr"
    by simp
  have val: "\<lfloor>5 + 90 * (real (length ([]::author list) + 1) / real (ctx_total example_ctx))\<rfloor>
               = (35::int)"
    by (simp add: example_ctx_def make_ctx_def)
  from progress_after_author [OF job tot bound step ok, where post = "[]"]
  show ?thesis using job tot bound step unfolding val by blast
qed

text \<open>For the third of seven authors the stored value is 43, while the nearest integer
  to \<open>5 + 90 \<cdot> 3 / 7\<close> is 44.\<close>

theorem progress_truncated_counterexample:
  "progress_value 3 7 = 43 \<and> round (5 + 90 * (real 3 / real 7)) = 44"
  by (simp add: progress_value_total_7 round_def)

section \<open>Properties of the affiliation upsert\<close>

text \<open>When no row of the table carries the key of the candidate, the \<^verbatim>\<open>SELECT\<close> misses
  and the row of the observation is added to the session. The table itself is not
  touched, so the next \<^verbatim>\<open>SELECT\<close> misses again: every observation of a new candidate
  gets a row of its own with evidence count 1, and the \<^verbatim>\<open>UPDATE\<close> is not reached.\<close>

lemma upsert_affiliation_miss:
  assumes "\<forall>r \<in> set (affiliation_years st). aff_candidate_id r \<noteq> cid"
  shows "upsert_affiliation cid yr org (st, s)
       = (st\<lparr>next_uuid := next_uuid st + 1\<rparr>,
          s\<lparr>pending_affiliations :=
               pending_affiliations s @
                 [\<lparr> aff_id = next_uuid st, aff_candidate_id = cid, org_name = org,
                    aff_year = yr, evidence_count = 1 \<rparr>]\<rparr>)"
proof -
  have "find (same_triple cid yr org) (affiliation_years st) = None"
    using assms by (auto simp: find_None_iff same_triple_def)
  then show ?thesis by (simp add: upsert_affiliation_def)
qed

lemma persist_work_pending:
  assumes "\<forall>r \<in> set (affiliation_years (fst ss)). aff_candidate_id r \<noteq> cid"
  shows "affiliation_years (fst (persist_work cid ss w)) = affiliation_years (fst ss)
       \<and> map recorded (pending_affiliations (snd (persist_work cid ss w)))
           = map recorded (pending_affiliations (snd ss))
             @ (case observation w of None \<Rightarrow> [] | Some (yr, org) \<Rightarrow> [(cid, yr, org, 1)])"
proof -
  obtain st s where ss: "ss = (st, s)" by (cases ss)
  show ?thesis
    using assms unfolding ss persist_work_def Let_def
    by (simp add: upsert_affiliation_miss observation_def recorded_def split: option.splits)
qed

lemma observations_Cons:
  "observations (w # ws)
     = (case observation w of None \<Rightarrow> [] | Some p \<Rightarrow> [p]) @ observations ws"
  by (simp add: observations_def List.map_filter_simps split: option.splits)

lemma persist_works_pending:
  assumes "\<forall>r \<in> set (affiliation_years (fst ss)). aff_candidate_id r \<noteq> cid"
  shows "affiliation_years (fst (foldl (persist_work cid) ss ws)) = affiliation_years (fst ss)
       \<and> map recorded (pending_affiliations (snd (foldl (persist_work cid) ss ws)))
           = map recorded (pending_affiliations (snd ss))
             @ map (\<lambda>(yr, org). (cid, yr, org, 1)) (observations ws)"
  using assms
proof (induction ws arbitrary: ss)
  case Nil
  then show ?case by (simp add: observations_def List.map_filter_simps)
next
  case (Cons w ws)
  note step = persist_work_pending[OF Cons.prems, of w]
  have "\<forall>r \<in> set (affiliation_years (fst (persist_work cid ss w))). aff_candidate_id r \<noteq> cid"
    using step Cons.prems by simp
  from Cons.IH[OF this] step show ?case
    by (simp add: observations_Cons split: option.splits)
qed

lemma persist_candidate_affiliations:
  assumes "\<forall>r \<in> set (affiliation_years st). aff_candidate_id r \<noteq> next_uuid st"
  shows "map recorded (affiliation_years (fst (persist_candidate a enr st)))
       = map recorded (affiliation_years st)
         @ map (\<lambda>(yr, org). (next_uuid st, yr, org, 1)) (observations (enr_works enr))"
proof -
  let ?c = "\<lparr> cand_id = next_uuid st, cand_name = display_name a,
              cand_affiliation = au_affiliation a, openalex_id = Some (au_id a),
              twitter_handle = None \<rparr>"
  let ?ss = "(st\<lparr>candidates := candidates st @ [?c], next_uuid := next_uuid st + 1\<rparr>,
              new_session)"
  have "\<forall>r \<in> set (affiliation_years (fst ?ss)). aff_candidate_id r \<noteq> next_uuid st"
    using assms by simp
  from persist_works_pending[OF this, of "enr_works enr"]
  show ?thesis
    by (simp add: persist_candidate_def Let_def case_prod_beta new_session_def)
qed

lemma enrich_works:
  assumes "enrich e ctx a = Inr enr" and "fetch_top_works e (au_id a) 10 = Inr ws"
  shows "enr_works enr = ws"
  using assms
  by (auto simp: enrich_def Let_def case_prod_beta split: sum.splits)

text \<open>
  Claim C4 fails on the code. The run of a job whose discovery finds one author with two
  works, both of the year 2020 at \<^verbatim>\<open>MIT\<close>, observes the triple (candidate, 2020, MIT)
  twice and leaves two rows for it, each with evidence count 1; the claim has one row
  with evidence count 2.
\<close>

theorem run_search_affiliation_rows:
  "map recorded (affiliation_years (run_search env_one_author 0 example_state))
     = [(1, 2020, ''MIT'', 1), (1, 2020, ''MIT'', 1)]"
proof -
  let ?e = env_one_author
  let ?s0 = "start_job 0 example_state"
  let ?a = "example_author ''A1''"
  have job: "jobs example_state 0 = Some example_job"
    by (simp add: example_state_def)
  have j1: "jobs ?s0 0 = Some (example_job\<lparr>job_status := RUNNING, job_progress := 1\<rparr>)"
    by (rule start_job_jobs[OF job])
  have disc: "search_authors ?e (discover_query_of example_job) 10 = Inr [?a]"
    by (simp add: env_one_author_def)
  have dim: "0 < embed_dim ?e" by (simp add: env_one_author_def)
  obtain job_vec where
    vec: "embed (md5_int ?e) (embed_dim ?e)
            (str_or (job_text_of example_job) (job_query example_job)) = Inr job_vec"
    and len: "length job_vec = embed_dim ?e"
    using embed_Inr[OF dim] by blast
  define ctx where "ctx = make_ctx ?e example_job job_vec (Suc 0)"
  have fetch: "fetch_top_works ?e (au_id ?a) 10 = Inr [example_work, example_work]"
    by (simp add: env_one_author_def)
  have "\<exists>enr. enrich ?e ctx ?a = Inr enr"
  proof (rule enrich_succeeds[OF fetch _ dim])
    show "work_texts [example_work, example_work]
            = Inr [''Quantum error correction'' @ [CHR 0x0A],
                   ''Quantum error correction'' @ [CHR 0x0A]]"
      by (simp add: work_text_def example_work_def)
    show "length (ctx_job_vec ctx) = embed_dim ?e"
      by (simp add: ctx_def make_ctx_def len)
  qed
  then obtain enr where enr: "enrich ?e ctx ?a = Inr enr" by blast
  have works: "enr_works enr = [example_work, example_work]"
    by (rule enrich_works[OF enr fetch])
  have body: "run_body ?e 0 ?s0
      = (emit 0 FinishedEvent
           (update_job 0 (\<lambda>j. j\<lparr>job_progress := 100, job_status := DONE\<rparr>)
              (complete_author 0 ctx 1 ?a enr ?s0)), None)"
    by (simp add: run_body_def j1 disc vec ctx_def[symmetric] enr)
  have run: "affiliation_years (run_search ?e 0 example_state)
      = affiliation_years (fst (persist_candidate ?a enr ?s0))"
    by (simp add: run_search_def job body complete_author_unfold)
  have s0: "affiliation_years ?s0 = []" "next_uuid ?s0 = 1"
    by (simp_all add: start_job_def example_state_def)
  have obs: "observations [example_work, example_work] = [(2020, ''MIT''), (2020, ''MIT'')]"
    by (simp add: observations_def observation_def example_work_def List.map_filter_simps)
  have "\<forall>r \<in> set (affiliation_years ?s0). aff_candidate_id r \<noteq> next_uuid ?s0"
    by (simp add: start_job_def example_state_def)
  from persist_candidate_affiliations[OF this, of ?a enr]
  have "map recorded (affiliation_years (fst (persist_candidate ?a enr ?s0)))
      = map recorded (affiliation_years ?s0)
        @ map (\<lambda>(yr, org). (next_uuid ?s0, yr, org, 1)) (observations (enr_works enr))" .
  then show ?thesis
    unfolding run works obs s0 by simp
qed

section \<open>Properties of get_search\<close>

lemma get_search_unknown_job:
  "jobs st jid = None \<Longrightarrow> get_search st jid = Inl (HTTPException 404 ''search not found'')"
  by (simp add: get_search_def)

text \<open>The statement of the first query names \<^verbatim>\<open>analysis_summary\<close>, which is not the
  table of \<^verbatim>\<open>AnalysisSummary\<close>: for a job that is \<^verbatim>\<open>RUNNING\<close> or \<^verbatim>\<open>DONE\<close> the query
  raises and \<^verbatim>\<open>get_search\<close> returns no listing.\<close>

lemma top_rows_raises:
  "top_rows st = Inl (OperationalError ''no such table: analysis_summary'')"
  by (simp add: top_rows_def analysis_summary_table_def)

lemma get_search_listing_raises:
  assumes "jobs st jid = Some j" and "job_status j \<in> {RUNNING, DONE}"
  shows "get_search st jid = Inl (OperationalError ''no such table: analysis_summary'')"
  using assms by (auto simp: get_search_def top_rows_raises)

lemma enrich_loop_ok_summaries:
  assumes "\<forall>b \<in> set as. \<exists>enr. enrich e ctx b = Inr enr"
  shows "length (summaries (fst (enrich_loop e jid ctx step as st)))
           = length (summaries st) + length as"
  using assms
proof (induction as arbitrary: step st)
  case Nil
  then show ?case by simp
next
  case (Cons b as)
  then obtain enr where enr: "enrich e ctx b = Inr enr" by auto
  from Cons.prems have ok: "\<forall>b \<in> set as. \<exists>enr. enrich e ctx b = Inr enr" by simp
  show ?case
    using Cons.IH[OF ok, of "step + 1" "complete_author jid ctx (step + 1) b enr st"]
    by (simp add: enr complete_author_unfold)
qed

lemma run_search_error_eq:
  assumes job: "jobs st jid = Some j"
    and disc: "search_authors e (discover_query_of j) 10 = Inr (pre @ a # post)"
    and vec: "embed (md5_int e) (embed_dim e) (str_or (job_text_of j) (job_query j)) = Inr job_vec"
    and ctx: "ctx = make_ctx e j job_vec (length (pre @ a # post))"
    and ok: "\<forall>b \<in> set pre. \<exists>enr. enrich e ctx b = Inr enr"
    and fail: "enrich e ctx a = Inl err"
  shows "run_search e jid st
      = emit jid (ErrorEvent (message err))
          (update_job jid (\<lambda>j. j\<lparr>job_status := ERROR, job_error := Some (message err)\<rparr>)
             (fst (enrich_loop e jid ctx 0 pre (start_job jid st))))"
proof -
  let ?s0 = "start_job jid st"
  have j1: "jobs ?s0 jid = Some (j\<lparr>job_status := RUNNING, job_progress := 1\<rparr>)"
    by (rule start_job_jobs[OF job])
  have loop: "enrich_loop e jid ctx 0 (pre @ a # post) ?s0
                = (fst (enrich_loop e jid ctx 0 pre ?s0), Some err)"
    using enrich_loop_append[OF ok, where jid=jid and step=0 and rest="a # post" and st="?s0"]
    by (simp add: fail)
  have body: "run_body e jid ?s0 = (fst (enrich_loop e jid ctx 0 pre ?s0), Some err)"
    using loop by (simp add: run_body_def j1 disc vec ctx)
  show ?thesis by (simp add: run_search_def job body)
qed

text \<open>The run whose second author fails: the job is left in \<^verbatim>\<open>ERROR\<close> at progress 35,
  and one candidate with its summary is stored.\<close>

lemma failed_run_state:
  "jobs (run_search env_second_fails 0 example_state) 0
     = Some (example_job\<lparr>job_status := ERROR, job_progress := 35,
                          job_error := Some ''503 Service Unavailable''\<rparr>)
   \<and> length (candidates (run_search env_second_fails 0 example_state)) = 1
   \<and> length (summaries (run_search env_second_fails 0 example_state)) = 1"
proof -
  let ?e = env_second_fails
  let ?s0 = "start_job 0 example_state"
  have job: "jobs example_state 0 = Some example_job"
    by (simp add: example_state_def)
  have disc: "search_authors ?e (discover_query_of example_job) 10
       = Inr ([example_author ''A1''] @ example_author ''A2'' # [example_author ''A3''])"
    by (simp add: env_second_fails_def)
  have dim: "0 < embed_dim ?e" by (simp add: env_second_fails_def)
  obtain job_vec where
    vec: "embed (md5_int ?e) (embed_dim ?e)
            (str_or (job_text_of example_job) (job_query example_job)) = Inr job_vec"
    and len: "length job_vec = embed_dim ?e"
    using embed_Inr[OF dim] by blast
  define ctx where "ctx = make_ctx ?e example_job job_vec
      (length ([example_author ''A1''] @ example_author ''A2'' # [example_author ''A3'']))"
  have "\<exists>enr. enrich ?e ctx (example_author ''A1'') = Inr enr"
  proof (rule enrich_succeeds[OF _ _ dim])
    show "fetch_top_works ?e (au_id (example_author ''A1'')) 10 = Inr [example_work, example_work]"
      by (simp add: env_second_fails_def example_author_def)
    show "work_texts [example_work, example_work]
            = Inr [''Quantum error correction'' @ [CHR 0x0A], ''Quantum error correction'' @ [CHR 0x0A]]"
      by (simp add: work_text_def example_work_def)
    show "length (ctx_job_vec ctx) = embed_dim ?e"
      by (simp add: ctx_def make_ctx_def len)
  qed
  then have ok: "\<forall>b \<in> set [example_author ''A1'']. \<exists>enr. enrich ?e ctx b = Inr enr"
    by simp
  have fail: "enrich ?e ctx (example_author ''A2'') = Inl (HTTPStatusError ''503 Service Unavailable'')"
    by (rule enrich_fetch_error) (simp add: env_second_fails_def example_author_def)
  define mid where "mid = fst (enrich_loop ?e 0 ctx 0 [example_author ''A1''] ?s0)"
  have run: "run_search ?e 0 example_state
      = emit 0 (ErrorEvent ''503 Service Unavailable'')
          (update_job 0 (\<lambda>j. j\<lparr>job_status := ERROR,
                                 job_error := Some ''503 Service Unavailable''\<rparr>) mid)"
    using run_search_error_eq[OF job disc vec ctx_def ok fail] by (simp add: mid_def)
  have tot: "ctx_total ctx = 3" by (simp add: ctx_def make_ctx_def)
  have jm: "jobs mid 0 = Some (example_job\<lparr>job_status := RUNNING, job_progress := 35\<rparr>)"
    using enrich_loop_ok_jobs[OF ok, where jid=0 and step=0 and st="?s0"]
    by (simp add: mid_def start_job_jobs[OF job] tot progress_value_total_3)
  have cs: "length (candidates mid) = 1"
    using enrich_loop_ok_candidates[OF ok, where jid=0 and step=0 and st="?s0"]
    by (auto simp: mid_def example_state_def)
  have ss: "length (summaries mid) = 1"
    using enrich_loop_ok_summaries[OF ok, where jid=0 and step=0 and st="?s0"]
    by (simp add: mid_def example_state_def)
  show ?thesis
    unfolding run using cs ss by (simp add: jm)
qed

text \<open>
  Claim C3, as it holds on the code. For every job that exists and whose status is
  \<^verbatim>\<open>PENDING\<close> or \<^verbatim>\<open>ERROR\<close>, \<^verbatim>\<open>get_search\<close> returns the status and the progress of the
  job and the empty list of candidates, whatever the tables hold: the candidates that a
  failed run has persisted stay in the store and are not shown.
\<close>

theorem get_search_pending_or_error:
  assumes "jobs st jid = Some j" and "job_status j \<in> {PENDING, ERROR}"
  shows "get_search st jid
       = Inr \<lparr> resp_status = job_status j, resp_progress = job_progress j,
               resp_results = [] \<rparr>"
  using assms by (auto simp: get_search_def)

theorem get_search_pending_or_error_witness:
  "jobs (run_search env_second_fails 0 example_state) 0
     = Some (example_job\<lparr>job_status := ERROR, job_progress := 35,
                          job_error := Some ''503 Service Unavailable''\<rparr>)
   \<and> job_status (example_job\<lparr>job_status := ERROR, job_progress := 35,
                              job_error := Some ''503 Service Unavailable''\<rparr>) \<in> {PENDING, ERROR}
   \<and> length (candidates (run_search env_second_fails 0 example_state)) = 1
   \<and> get_search (run_search env_second_fails 0 example_state) 0
       = Inr \<lparr> resp_status = ERROR, resp_progress = 35, resp_results = [] \<rparr>"
proof -
  let ?j = "example_job\<lparr>job_status := ERROR, job_progress := 35,
                        job_error := Some ''503 Service Unavailable''\<rparr>"
  have job: "jobs (run_search env_second_fails 0 example_state) 0 = Some ?j"
    using failed_run_state by blast
  have st: "job_status ?j \<in> {PENDING, ERROR}" by simp
  from get_search_pending_or_error [OF job st] job st failed_run_state
  show ?thesis by simp
qed

text \<open>The candidate that the failed run has persisted is not in the answer for its
  job.\<close>

theorem get_search_error_job_counterexample:
  "length (candidates (run_search env_second_fails 0 example_state)) = 1
   \<and> length (summaries (run_search env_second_fails 0 example_state)) = 1
   \<and> get_search (run_search env_second_fails 0 example_state) 0
       = Inr \<lparr> resp_status = ERROR, resp_progress = 35, resp_results = [] \<rparr>"
  using failed_run_state by (simp add: get_search_def)

section \<open>Properties of retrieval\<close>

subsection \<open>A stable sort of the row indices\<close>




subsection \<open>What query_tweets loads and looks up\<close>









subsection \<open>The two corpora\<close>













subsection \<open>The ranking\<close>




end
